theory Spec2Isabelle
  imports Complex_Main "HOL-Library.Word"
begin

section \<open>Failures\<close>

text \<open>
  The C++ exceptions the modelled code can raise, and undefined behaviour as a failure of
  its own. \<open>Runtime_error\<close> is \<open>std::runtime_error\<close> with its message,
  \<open>C10_error\<close> is what a failed \<open>TORCH_CHECK\<close> raises, with its message, and
  \<open>C10_index_error\<close> is what \<open>Tensor::size\<close> raises for a dimension that the
  tensor does not have.
\<close>

datatype cpp_exception = Runtime_error string | C10_error string | C10_index_error

datatype fault = Throws cpp_exception | Undefined_behaviour

section \<open>Shape dispatch of the a8w8 GEMM (csrc/ck\_gemm\_a8w8/gemm\_a8w8.cu)\<close>

subsection \<open>Kernel variants and the exact lookup table\<close>

text \<open>
  A \<open>RowwiseKernel\<close> is a reference to one compiled kernel entry point. The eight
  entry points named by the heuristic are constructors of their own; any other entry
  point of the manifest (it can only come from the lookup table) is \<open>Manifest_kernel\<close>
  with its name. The template arguments (the three data types) are chosen by the caller
  and are carried beside the variant, see \<open>gemm_a8w8\<close> below.
\<close>

datatype RowwiseKernel =
    a8w8_rowwise_256x256x128x64_32x32_4x2_4x64x1_4x64x1_1x32x1x8_8x8x1_1x1_interwave_v1
  | a8w8_rowwise_64x16x16x128_16x16_1x1_8x8x1_8x8x1_1x16x1x4_4x4x1_1x1_interwave_v2
  | a8w8_rowwise_128x16x32x128_16x16_1x1_8x16x1_8x16x1_1x16x1x8_4x4x1_1x1_intrawave_v2
  | a8w8_rowwise_128x32x16x128_16x16_1x1_8x16x1_8x16x1_1x16x1x8_2x2x1_1x1_interwave_v2
  | a8w8_rowwise_64x16x16x256_16x16_1x1_16x4x1_16x4x1_1x16x1x4_4x4x1_1x1_intrawave_v1
  | a8w8_rowwise_256x128x128x128_32x32_2x2_8x32x1_8x32x1_1x32x1x8_8x8x1_1x1_interwave_v1
  | a8w8_rowwise_256x128x128x128_32x32_2x2_8x32x1_8x32x1_1x32x1x8_8x8x1_1x1_intrawave_v3
  | a8w8_rowwise_256x224x256x128_16x16_7x8_8x32x1_8x32x1_1x32x1x8_8x8x1_1x2_intrawave_v3
  | Manifest_kernel string

text \<open>
  \<open>RowwiseKernelMap\<close> is the \<open>std::unordered_map\<close> from \<open>(M, N, K)\<close> to a kernel.
  Its contents come from the macro \<open>GENERATE_LOOKUP_TABLE\<close> of a generated header that
  is not part of the sources, so the table is a parameter of the dispatch. The three
  dimensions are C \<open>int\<close>s; the dispatch only compares them (and converts \<open>M\<close> to
  \<open>unsigned int\<close> once), so they are HOL integers here.
\<close>

type_synonym RowwiseKernelMap = "int \<times> int \<times> int \<rightharpoonup> RowwiseKernel"

subsection \<open>The heuristic ladder\<close>

definition rowwise_heuristic_dispatch :: "int \<Rightarrow> int \<Rightarrow> int \<Rightarrow> RowwiseKernel" where
  "rowwise_heuristic_dispatch M N K =
    (if K < 512 then
       a8w8_rowwise_256x256x128x64_32x32_4x2_4x64x1_4x64x1_1x32x1x8_8x8x1_1x1_interwave_v1
     else if M < 64 \<and> N < 2048 \<and> K < 2048 then
       a8w8_rowwise_64x16x16x128_16x16_1x1_8x8x1_8x8x1_1x16x1x4_4x4x1_1x1_interwave_v2
     else if M < 64 \<and> K < 2048 then
       a8w8_rowwise_128x16x32x128_16x16_1x1_8x16x1_8x16x1_1x16x1x8_4x4x1_1x1_intrawave_v2
     else if M < 64 \<and> N < 2048 then
       a8w8_rowwise_128x32x16x128_16x16_1x1_8x16x1_8x16x1_1x16x1x8_2x2x1_1x1_interwave_v2
     else if M < 64 \<and> N > 2048 \<and> K > 2048 then
       a8w8_rowwise_64x16x16x256_16x16_1x1_16x4x1_16x4x1_1x16x1x4_4x4x1_1x1_intrawave_v1
     else if M < 64 then
       a8w8_rowwise_64x16x16x128_16x16_1x1_8x8x1_8x8x1_1x16x1x4_4x4x1_1x1_interwave_v2
     else if K < 1024 then
       a8w8_rowwise_256x128x128x128_32x32_2x2_8x32x1_8x32x1_1x32x1x8_8x8x1_1x1_interwave_v1
     else if M < 1024 then
       a8w8_rowwise_256x128x128x128_32x32_2x2_8x32x1_8x32x1_1x32x1x8_8x8x1_1x1_intrawave_v3
     else if M \<ge> 1024 \<and> N \<ge> 1024 \<and> K \<ge> 1024 then
       a8w8_rowwise_256x256x128x64_32x32_4x2_4x64x1_4x64x1_1x32x1x8_8x8x1_1x1_interwave_v1
     else
       a8w8_rowwise_256x224x256x128_16x16_7x8_8x32x1_8x32x1_1x32x1x8_8x8x1_1x2_intrawave_v3)"

text \<open>The entry points the ladder can return.\<close>

definition heuristic_kernels :: "RowwiseKernel list" where
  "heuristic_kernels =
    [a8w8_rowwise_256x256x128x64_32x32_4x2_4x64x1_4x64x1_1x32x1x8_8x8x1_1x1_interwave_v1,
     a8w8_rowwise_64x16x16x128_16x16_1x1_8x8x1_8x8x1_1x16x1x4_4x4x1_1x1_interwave_v2,
     a8w8_rowwise_128x16x32x128_16x16_1x1_8x16x1_8x16x1_1x16x1x8_4x4x1_1x1_intrawave_v2,
     a8w8_rowwise_128x32x16x128_16x16_1x1_8x16x1_8x16x1_1x16x1x8_2x2x1_1x1_interwave_v2,
     a8w8_rowwise_64x16x16x256_16x16_1x1_16x4x1_16x4x1_1x16x1x4_4x4x1_1x1_intrawave_v1,
     a8w8_rowwise_256x128x128x128_32x32_2x2_8x32x1_8x32x1_1x32x1x8_8x8x1_1x1_interwave_v1,
     a8w8_rowwise_256x128x128x128_32x32_2x2_8x32x1_8x32x1_1x32x1x8_8x8x1_1x1_intrawave_v3,
     a8w8_rowwise_256x224x256x128_16x16_7x8_8x32x1_8x32x1_1x32x1x8_8x8x1_1x2_intrawave_v3]"

text \<open>
  The same ladder as data: the guard of each branch of the \<open>if\<close>/\<open>else if\<close> chain,
  in source order, with the kernel that branch returns; the closing \<open>else\<close> has the
  guard \<open>True\<close>.
\<close>

definition heuristic_ladder :: "int \<Rightarrow> int \<Rightarrow> int \<Rightarrow> (bool \<times> RowwiseKernel) list" where
  "heuristic_ladder M N K =
    [(K < 512,
      a8w8_rowwise_256x256x128x64_32x32_4x2_4x64x1_4x64x1_1x32x1x8_8x8x1_1x1_interwave_v1),
     (M < 64 \<and> N < 2048 \<and> K < 2048,
      a8w8_rowwise_64x16x16x128_16x16_1x1_8x8x1_8x8x1_1x16x1x4_4x4x1_1x1_interwave_v2),
     (M < 64 \<and> K < 2048,
      a8w8_rowwise_128x16x32x128_16x16_1x1_8x16x1_8x16x1_1x16x1x8_4x4x1_1x1_intrawave_v2),
     (M < 64 \<and> N < 2048,
      a8w8_rowwise_128x32x16x128_16x16_1x1_8x16x1_8x16x1_1x16x1x8_2x2x1_1x1_interwave_v2),
     (M < 64 \<and> N > 2048 \<and> K > 2048,
      a8w8_rowwise_64x16x16x256_16x16_1x1_16x4x1_16x4x1_1x16x1x4_4x4x1_1x1_intrawave_v1),
     (M < 64,
      a8w8_rowwise_64x16x16x128_16x16_1x1_8x8x1_8x8x1_1x16x1x4_4x4x1_1x1_interwave_v2),
     (K < 1024,
      a8w8_rowwise_256x128x128x128_32x32_2x2_8x32x1_8x32x1_1x32x1x8_8x8x1_1x1_interwave_v1),
     (M < 1024,
      a8w8_rowwise_256x128x128x128_32x32_2x2_8x32x1_8x32x1_1x32x1x8_8x8x1_1x1_intrawave_v3),
     (M \<ge> 1024 \<and> N \<ge> 1024 \<and> K \<ge> 1024,
      a8w8_rowwise_256x256x128x64_32x32_4x2_4x64x1_4x64x1_1x32x1x8_8x8x1_1x1_interwave_v1),
     (True,
      a8w8_rowwise_256x224x256x128_16x16_7x8_8x32x1_8x32x1_1x32x1x8_8x8x1_1x2_intrawave_v3)]"

subsection \<open>nextPow2\<close>

text \<open>
  \<open>bit_width n\<close> is the number of binary digits of \<open>n\<close>, so that the count of leading
  zero bits of a non-zero 32-bit value \<open>x\<close> is \<open>32 - bit_width (unat x)\<close>.
  \<open>__builtin_clz\<close> is undefined at 0; \<open>nextPow2\<close> never calls it there.
\<close>

fun bit_width :: "nat \<Rightarrow> nat" where
  "bit_width n = (if n = 0 then 0 else Suc (bit_width (n div 2)))"

declare bit_width.simps [simp del]

definition builtin_clz :: "32 word \<Rightarrow> nat" where
  "builtin_clz x = 32 - bit_width (unat x)"

text \<open>
  \<open>nextPow2\<close> takes an \<open>unsigned int\<close> and returns the \<open>int\<close>
  \<open>1 << (32 - clz (num - 1))\<close>. A shift by 32 is undefined behaviour (\<open>None\<close>);
  a shift by 31 gives the most negative \<open>int\<close>.
\<close>

definition nextPow2 :: "32 word \<Rightarrow> int option" where
  "nextPow2 num =
    (if num \<le> 1 then Some 1
     else let sh = 32 - builtin_clz (num - 1)
          in if sh < 31 then Some (2 ^ sh)
             else if sh = 31 then Some (- (2 ^ 31))
             else None)"

subsection \<open>rowwise\_dispatch\<close>

text \<open>
  The padding of \<open>M\<close> (the local \<open>padded_m\<close> of \<open>rowwise_dispatch\<close>). The call
  \<open>nextPow2(M)\<close> converts the \<open>int\<close> to \<open>unsigned int\<close>.
\<close>

definition padded_m :: "int \<Rightarrow> int option" where
  "padded_m M =
    (if M > 1 \<and> M \<le> 16 then Some 16
     else if M \<le> 16384 then nextPow2 (word_of_int M)
     else if M \<le> 20480 then Some 20480
     else Some M)"

definition rowwise_dispatch :: "RowwiseKernelMap \<Rightarrow> int \<Rightarrow> int \<Rightarrow> int \<Rightarrow> RowwiseKernel option" where
  "rowwise_dispatch lookup M N K =
    (case lookup (M, N, K) of
       Some it \<Rightarrow> Some it
     | None \<Rightarrow>
        (case padded_m M of
           None \<Rightarrow> None
         | Some pm \<Rightarrow>
            (case lookup (pm, N, K) of
               Some it \<Rightarrow> Some it
             | None \<Rightarrow> Some (rowwise_heuristic_dispatch M N K))))"

section \<open>The kernel cache header (identifier cache, artifact cache, invoker)\<close>

subsection \<open>LRUCache\<close>

text \<open>
  Modelled from the spec: the class template \<open>LRUCache\<close> of \<open>lru_cache.h\<close>, which
  is not among the sources. It is a mapping with unique keys, kept here as the list of
  its entries from the most recently accessed to the least recently accessed one,
  together with its capacity.
\<close>

record ('k, 'v) LRUCache =
  capacity :: int
  items :: "('k \<times> 'v) list"

text \<open>
  Modelled from the spec: the capacity values that indicate "unbounded". The spec gives
  no number. It calls unbounded both the absent size setting, for which
  \<open>init_lru_cache\<close> passes \<open>-1\<close>, and a non-numeric one, for which \<open>atoi\<close>
  gives 0; so a capacity that is not positive is unbounded, and a positive capacity is
  a bound.
\<close>

definition unbounded_capacity :: "int \<Rightarrow> bool" where
  "unbounded_capacity n = (n \<le> 0)"

text \<open>Modelled from the spec: the constructor \<open>LRUCache(capacity)\<close>; the cache starts empty.\<close>

definition LRUCache_new :: "int \<Rightarrow> ('k, 'v) LRUCache" where
  "LRUCache_new n = \<lparr>capacity = n, items = []\<rparr>"

text \<open>
  Modelled from the spec: \<open>LRUCache::get\<close>. A hit returns the value and counts as an
  access that refreshes the key's recency; a miss returns nothing and changes nothing.
\<close>

definition lru_get :: "('k, 'v) LRUCache \<Rightarrow> 'k \<Rightarrow> 'v option \<times> ('k, 'v) LRUCache" where
  "lru_get c k =
    (case map_of (items c) k of
       None \<Rightarrow> (None, c)
     | Some v \<Rightarrow> (Some v, c\<lparr>items := (k, v) # filter (\<lambda>e. fst e \<noteq> k) (items c)\<rparr>))"

text \<open>
  Modelled from the spec: \<open>LRUCache::put\<close>. The key becomes the most recently accessed
  one (keys stay unique); when the capacity is exceeded, the least recently accessed key
  is evicted, unless the capacity is an unbounded one, which disables eviction.
\<close>

definition lru_put :: "('k, 'v) LRUCache \<Rightarrow> 'k \<Rightarrow> 'v \<Rightarrow> ('k, 'v) LRUCache" where
  "lru_put c k v =
    (let its = (k, v) # filter (\<lambda>e. fst e \<noteq> k) (items c)
     in c\<lparr>items := (if \<not> unbounded_capacity (capacity c) \<and> capacity c < int (length its)
                     then butlast its else its)\<rparr>)"

text \<open>A run of insertions, in order.\<close>

fun lru_put_all :: "('k, 'v) LRUCache \<Rightarrow> ('k \<times> 'v) list \<Rightarrow> ('k, 'v) LRUCache" where
  "lru_put_all c [] = c"
| "lru_put_all c ((k, v) # kvs) = lru_put_all (lru_put c k v) kvs"

subsection \<open>atoi\<close>

text \<open>
  The C library's \<open>atoi\<close>: leading white space is skipped, an optional sign is read,
  then the longest run of decimal digits; with no digit the value is 0. A value that
  does not fit an \<open>int\<close> is undefined behaviour (\<open>None\<close>).
\<close>

definition isspace :: "char \<Rightarrow> bool" where
  "isspace c = ((of_char c :: nat) = 32 \<or> (9 \<le> (of_char c :: nat) \<and> (of_char c :: nat) \<le> 13))"

definition isdigit :: "char \<Rightarrow> bool" where
  "isdigit c = (48 \<le> (of_char c :: nat) \<and> (of_char c :: nat) \<le> 57)"

fun digits_value :: "int \<Rightarrow> string \<Rightarrow> int" where
  "digits_value acc [] = acc"
| "digits_value acc (c # cs) =
    (if isdigit c then digits_value (acc * 10 + (of_char c - 48)) cs else acc)"

definition atoi :: "string \<Rightarrow> int option" where
  "atoi s =
    (let t = dropWhile isspace s;
         r = (case t of
                [] \<Rightarrow> 0
              | c # u \<Rightarrow>
                  if c = CHR ''-'' then - digits_value 0 u
                  else if c = CHR ''+'' then digits_value 0 u
                  else digits_value 0 t)
     in if - (2 ^ 31) \<le> r \<and> r < 2 ^ 31 then Some r else None)"

subsection \<open>The process: environment, files, and the header's static variables\<close>

text \<open>
  A file is a loadable shared object exporting some symbols, or anything else (which the
  dynamic loader rejects).
\<close>

datatype fs_file = Shared_object "string list" | Other_file

text \<open>
  A \<open>SharedLibrary\<close> object holds the handle that \<open>dlopen\<close> returned. Every call of
  \<open>dlopen\<close> of the model gives a handle of its own, so the handle also identifies the
  object; \<open>symbols\<close> is what \<open>dlsym\<close> finds through the handle. The
  destructor's \<open>dlclose\<close> is left out: nothing below depends on a library being
  unloaded.
\<close>

record SharedLibrary =
  handle :: nat
  symbols :: "string list"

text \<open>
  The state of the process as far as the header reads and writes it: the environment
  (\<open>getenv\<close>), the file system, the three lazily initialised statics (\<open>None\<close> until
  their \<open>std::once_flag\<close> is set), and the paths given to \<open>dlopen\<close> so far, the
  latest first. The statics have internal linkage; the model is that of one translation
  unit, with one thread.
\<close>

record process =
  getenv :: "string \<rightharpoonup> string"
  files :: "string \<rightharpoonup> fs_file"
  aiter_root_dir :: "string option"
  libs :: "(string, SharedLibrary) LRUCache option"
  func_names :: "(string, string) LRUCache option"
  dlopen_calls :: "string list"

subsection \<open>init\_lru\_cache\<close>

definition init_lru_cache :: "(string \<rightharpoonup> string) \<Rightarrow> fault + ('k, 'v) LRUCache" where
  "init_lru_cache env =
    (let AITER_MAX_CACHE_SIZE =
           (case env ''AITER_MAX_CACHE_SIZE'' of None \<Rightarrow> ''-1'' | Some s \<Rightarrow> s)
     in case atoi AITER_MAX_CACHE_SIZE of
          None \<Rightarrow> Inl Undefined_behaviour
        | Some aiter_max_cache_size \<Rightarrow> Inr (LRUCache_new aiter_max_cache_size))"

text \<open>
  \<open>std::call_once(init_libs_lru_cache, init_lru_cache, libs)\<close> and the same for
  \<open>func_names\<close>: the cache is built on the first call only.
\<close>

definition libs_once :: "process \<Rightarrow> (fault + (string, SharedLibrary) LRUCache) \<times> process" where
  "libs_once ps =
    (case libs ps of
       Some c \<Rightarrow> (Inr c, ps)
     | None \<Rightarrow>
        (case init_lru_cache (getenv ps) of
           Inl f \<Rightarrow> (Inl f, ps)
         | Inr c \<Rightarrow> (Inr c, ps\<lparr>libs := Some c\<rparr>)))"

definition func_names_once :: "process \<Rightarrow> (fault + (string, string) LRUCache) \<times> process" where
  "func_names_once ps =
    (case func_names ps of
       Some c \<Rightarrow> (Inr c, ps)
     | None \<Rightarrow>
        (case init_lru_cache (getenv ps) of
           Inl f \<Rightarrow> (Inl f, ps)
         | Inr c \<Rightarrow> (Inr c, ps\<lparr>func_names := Some c\<rparr>)))"

subsection \<open>The build root\<close>

text \<open>
  \<open>std::filesystem::path::operator/\<close> on a POSIX system: an absolute right operand
  replaces the path; otherwise a separator is added unless the left operand is empty or
  ends in one.
\<close>

definition path_append :: "string \<Rightarrow> string \<Rightarrow> string" where
  "path_append p q =
    (if q \<noteq> [] \<and> hd q = CHR ''/'' then q
     else if p \<noteq> [] \<and> last p \<noteq> CHR ''/'' then p @ ''/'' @ q
     else p @ q)"

text \<open>
  \<open>init_root_dir\<close> under \<open>std::call_once\<close>. With neither variable set the path is
  built from a null pointer, which is undefined behaviour.
\<close>

definition get_root_dir :: "process \<Rightarrow> (fault + string) \<times> process" where
  "get_root_dir ps =
    (case aiter_root_dir ps of
       Some root_dir \<Rightarrow> (Inr root_dir, ps)
     | None \<Rightarrow>
        (case (case getenv ps ''AITER_ROOT_DIR'' of
                 None \<Rightarrow> getenv ps ''HOME''
               | Some d \<Rightarrow> Some d) of
           None \<Rightarrow> (Inl Undefined_behaviour, ps)
         | Some AITER_ROOT_DIR \<Rightarrow>
            (let root_dir = path_append AITER_ROOT_DIR ''.aiter''
             in (Inr root_dir, ps\<lparr>aiter_root_dir := Some root_dir\<rparr>))))"

text \<open>The path \<open>get_root_dir() / "build" / folder / "lib.so"\<close> of \<open>run_lib\<close> and \<open>not_built\<close>.\<close>

definition lib_path :: "string \<Rightarrow> string \<Rightarrow> string" where
  "lib_path root_dir folder = path_append (path_append (path_append root_dir ''build'') folder) ''lib.so''"


subsection \<open>SharedLibrary\<close>

text \<open>
  The constructor calls \<open>dlopen\<close> and throws \<open>std::runtime_error(dlerror())\<close> when it
  fails; the messages stand for the loader's text.
\<close>

definition SharedLibrary_new :: "process \<Rightarrow> string \<Rightarrow> (fault + SharedLibrary) \<times> process" where
  "SharedLibrary_new ps path =
    (let ps1 = ps\<lparr>dlopen_calls := path # dlopen_calls ps\<rparr>
     in case files ps path of
          Some (Shared_object syms) \<Rightarrow>
            (Inr \<lparr>handle = Suc (length (dlopen_calls ps)), symbols = syms\<rparr>, ps1)
        | Some Other_file \<Rightarrow>
            (Inl (Throws (Runtime_error (path @ '': invalid ELF header''))), ps1)
        | None \<Rightarrow>
            (Inl (Throws (Runtime_error
               (path @ '': cannot open shared object file: No such file or directory''))), ps1))"

definition getRawFunction :: "SharedLibrary \<Rightarrow> string \<Rightarrow> fault + unit" where
  "getRawFunction lib funcName =
    (if funcName \<in> set (symbols lib) then Inr ()
     else Inl (Throws (Runtime_error (''undefined symbol: '' @ funcName))))"

text \<open>
  \<open>call\<close> resolves the symbol and invokes it. What the invoked kernel does is outside
  the model: a resolved call returns.
\<close>

definition call :: "SharedLibrary \<Rightarrow> string \<Rightarrow> fault + unit" where
  "call lib func_name = getRawFunction lib func_name"

subsection \<open>run\_lib\<close>

text \<open>
  The first part of \<open>run_lib\<close>: the artifact cache is asked for the identifier and, on
  a miss, the library is loaded from the build root, stored, and asked for again. The
  result is the \<open>func_lib\<close> that the call then goes through. Dereferencing the empty
  optional of a second miss is undefined behaviour.
\<close>

definition run_lib_func_lib :: "process \<Rightarrow> string \<Rightarrow> string \<Rightarrow> (fault + SharedLibrary) \<times> process" where
  "run_lib_func_lib ps func_name folder =
    (case libs_once ps of
       (Inl f, ps1) \<Rightarrow> (Inl f, ps1)
     | (Inr cache, ps1) \<Rightarrow>
        (case lru_get cache func_name of
           (Some func_lib, cache1) \<Rightarrow> (Inr func_lib, ps1\<lparr>libs := Some cache1\<rparr>)
         | (None, cache1) \<Rightarrow>
            (case get_root_dir (ps1\<lparr>libs := Some cache1\<rparr>) of
               (Inl f, ps2) \<Rightarrow> (Inl f, ps2)
             | (Inr root_dir, ps2) \<Rightarrow>
                (case SharedLibrary_new ps2 (lib_path root_dir folder) of
                   (Inl f, ps3) \<Rightarrow> (Inl f, ps3)
                 | (Inr lib, ps3) \<Rightarrow>
                    (case lru_get (lru_put cache1 func_name lib) func_name of
                       (Some func_lib, cache2) \<Rightarrow> (Inr func_lib, ps3\<lparr>libs := Some cache2\<rparr>)
                     | (None, cache2) \<Rightarrow>
                         (Inl Undefined_behaviour, ps3\<lparr>libs := Some cache2\<rparr>))))))"

definition run_lib :: "process \<Rightarrow> string \<Rightarrow> string \<Rightarrow> (fault + unit) \<times> process" where
  "run_lib ps func_name folder =
    (case run_lib_func_lib ps func_name folder of
       (Inl f, ps1) \<Rightarrow> (Inl f, ps1)
     | (Inr func_lib, ps1) \<Rightarrow> (call func_lib func_name, ps1))"

subsection \<open>hash\_signature and get\_default\_func\_name\<close>

text \<open>
  Each digest byte is printed as two lower-case hexadecimal digits. The digest itself is
  OpenSSL's MD5, a parameter \<open>md5\<close> of the model.
\<close>

definition hex_digit :: "nat \<Rightarrow> char" where
  "hex_digit n = ''0123456789abcdef'' ! n"

definition hex_byte :: "8 word \<Rightarrow> string" where
  "hex_byte b = [hex_digit (unat b div 16), hex_digit (unat b mod 16)]"

definition hash_signature :: "(string \<Rightarrow> 8 word list) \<Rightarrow> string \<Rightarrow> string" where
  "hash_signature md5 signature = concat (map hex_byte (md5 signature))"

text \<open>\<open>fmt::join(args, sep)\<close>, formatted.\<close>

fun join :: "string list \<Rightarrow> string \<Rightarrow> string" where
  "join [] sep = []"
| "join [x] sep = x"
| "join (x # y # ys) sep = x @ sep @ join (y # ys) sep"

text \<open>
  \<open>std::tolower\<close> follows the \<open>LC_CTYPE\<close> locale of the process, so the function
  from byte to byte that it computes is a parameter \<open>std_tolower\<close> of the model.
  Under the "C" locale it is \<open>tolower_C_locale\<close>: the letters \<open>A\<close> to \<open>Z\<close> go
  to \<open>a\<close> to \<open>z\<close> and every other byte is unchanged.
\<close>

definition tolower_C_locale :: "char \<Rightarrow> char" where
  "tolower_C_locale c =
    (if 65 \<le> (of_char c :: nat) \<and> (of_char c :: nat) \<le> 90 then char_of ((of_char c :: nat) + 32)
     else c)"

text \<open>The local \<open>args_str\<close> of \<open>get_default_func_name\<close>: the arguments joined and lower-cased.\<close>

definition args_str :: "(char \<Rightarrow> char) \<Rightarrow> string list \<Rightarrow> string" where
  "args_str std_tolower args = map std_tolower (join args ''_'')"

definition get_default_func_name ::
  "(char \<Rightarrow> char) \<Rightarrow> (string \<Rightarrow> 8 word list) \<Rightarrow> process \<Rightarrow> string \<Rightarrow> string list
     \<Rightarrow> (fault + string) \<times> process" where
  "get_default_func_name std_tolower md5 ps md_name args =
    (case func_names_once ps of
       (Inl f, ps1) \<Rightarrow> (Inl f, ps1)
     | (Inr cache, ps1) \<Rightarrow>
        (case lru_get cache (args_str std_tolower args) of
           (Some func_name, cache1) \<Rightarrow> (Inr func_name, ps1\<lparr>func_names := Some cache1\<rparr>)
         | (None, cache1) \<Rightarrow>
            (case lru_get
                    (lru_put cache1 (args_str std_tolower args)
                       (md_name @ ''_'' @ hash_signature md5 (args_str std_tolower args)))
                    (args_str std_tolower args) of
               (Some func_name, cache2) \<Rightarrow> (Inr func_name, ps1\<lparr>func_names := Some cache2\<rparr>)
             | (None, cache2) \<Rightarrow>
                 (Inl Undefined_behaviour, ps1\<lparr>func_names := Some cache2\<rparr>))))"

section \<open>The operator entry point gemm\_a8w8\<close>

subsection \<open>Tensors\<close>

text \<open>
  The scalar types that \<open>gemm_a8w8\<close> tells apart; \<open>torch_fp8\<close> is the 8-bit float
  type that the build selects, every other type is \<open>Other_dtype\<close> with its name.
\<close>

datatype ScalarType = Char_dtype | Float | Half | BFloat16 | torch_fp8 | Other_dtype string

text \<open>
  A \<open>torch::Tensor\<close> is a handle: \<open>impl\<close> identifies the tensor object it refers
  to, \<open>dtype\<close> and \<open>sizes\<close> are what the handle reports.
\<close>

record Tensor =
  impl :: nat
  dtype :: ScalarType
  sizes :: "int list"

text \<open>\<open>Tensor::size(d)\<close> for \<open>d = 0, 1\<close>; it throws when the tensor has no such dimension.\<close>

definition Tensor_size :: "Tensor \<Rightarrow> nat \<Rightarrow> fault + int" where
  "Tensor_size t d = (if d < length (sizes t) then Inr (sizes t ! d) else Inl (Throws C10_index_error))"

text \<open>The conversion of an \<open>int64_t\<close> size to \<open>int\<close> (two's complement, 32 bits).\<close>

definition to_int :: "int \<Rightarrow> int" where
  "to_int x = sint (word_of_int x :: 32 word)"

subsection \<open>KBatch\<close>

text \<open>
  \<open>int KBatch = std::pow(2, splitK)\<close>: the power is computed as a \<open>double\<close>, which
  holds a power of two exactly, and converted to \<open>int\<close> by truncation towards zero.
  The conversion is undefined behaviour (\<open>None\<close>) when the truncated value does not
  fit an \<open>int\<close>.
\<close>

definition KBatch_of :: "int \<Rightarrow> int option" where
  "KBatch_of splitK =
    (let x = (2 :: rat) powi splitK;
         t = (if 0 \<le> x then \<lfloor>x\<rfloor> else \<lceil>x\<rceil>)
     in if - (2 ^ 31) \<le> t \<and> t < 2 ^ 31 then Some t else None)"

subsection \<open>The call of the selected kernel\<close>

text \<open>The element types that instantiate a kernel template.\<close>

datatype ck_type = I8 | F8 | F32 | F16 | B16

text \<open>
  One invocation of a kernel: the entry point, its three template arguments, and the
  seven arguments that \<open>gemm_a8w8\<close> passes.
\<close>

record kernel_call =
  entry_point :: RowwiseKernel
  ABDataType :: ck_type
  DDataType :: ck_type
  EDataType :: ck_type
  arg_XQ :: Tensor
  arg_WQ :: Tensor
  arg_x_scale :: Tensor
  arg_w_scale :: Tensor
  arg_Y :: Tensor
  arg_bias :: "Tensor option"
  arg_KBatch :: int

text \<open>
  The template arguments chosen by the two \<open>if\<close>/\<open>else if\<close> chains over the data
  types of \<open>XQ\<close>, \<open>x_scale\<close> and \<open>Y\<close>; both chains end in a failed
  \<open>TORCH_CHECK\<close>.
\<close>

definition gemm_a8w8_types :: "ScalarType \<Rightarrow> ScalarType \<Rightarrow> ScalarType \<Rightarrow> fault + ck_type \<times> ck_type \<times> ck_type" where
  "gemm_a8w8_types XQ_dtype x_scale_dtype Y_dtype =
    (if XQ_dtype = Char_dtype then
       (if x_scale_dtype = Float \<and> Y_dtype = Half then Inr (I8, F32, F16)
        else if x_scale_dtype = Float \<and> Y_dtype = BFloat16 then Inr (I8, F32, B16)
        else if Y_dtype = Half then Inr (I8, F16, F16)
        else if Y_dtype = BFloat16 then Inr (I8, B16, B16)
        else Inl (Throws (C10_error ''Unsupported scales/output dtype!'')))
     else
       (if x_scale_dtype = Float \<and> Y_dtype = Half then Inr (F8, F32, F16)
        else if x_scale_dtype = Float \<and> Y_dtype = BFloat16 then Inr (F8, F32, B16)
        else if Y_dtype = Half then Inr (F8, F16, F16)
        else if Y_dtype = BFloat16 then Inr (F8, B16, B16)
        else Inl (Throws (C10_error ''Unsupported scales/output dtype!''))))"

text \<open>
  \<open>gemm_a8w8\<close> up to the point where the selected kernel is called: the three
  \<open>TORCH_CHECK\<close>s, the sizes, \<open>KBatch\<close>, the template arguments and the dispatch.
  The result is the call that is made. Each instantiation of \<open>rowwise_dispatch\<close> has
  a lookup table of its own, so the tables are a parameter indexed by the template
  arguments.
\<close>

definition gemm_a8w8_call ::
  "(ck_type \<times> ck_type \<times> ck_type \<Rightarrow> RowwiseKernelMap) \<Rightarrow> Tensor \<Rightarrow> Tensor \<Rightarrow> Tensor \<Rightarrow> Tensor
     \<Rightarrow> Tensor \<Rightarrow> Tensor option \<Rightarrow> int \<Rightarrow> fault + kernel_call" where
  "gemm_a8w8_call lookup XQ WQ x_scale w_scale Y bias splitK =
    (if \<not> ((dtype XQ = Char_dtype \<or> dtype XQ = torch_fp8) \<and> dtype XQ = dtype WQ) then
       Inl (Throws (C10_error ''Weights and activations should both be int8/fp8!''))
     else if \<not> dtype x_scale = dtype w_scale then
       Inl (Throws (C10_error ''Scales should have the same dtype!''))
     else if (case bias of None \<Rightarrow> False | Some b \<Rightarrow> \<not> dtype b = dtype Y) then
       Inl (Throws (C10_error ''Out amd bias should have the same dtype!''))
     else
       (case Tensor_size XQ 0 of Inl f \<Rightarrow> Inl f | Inr M \<Rightarrow>
       (case Tensor_size WQ 0 of Inl f \<Rightarrow> Inl f | Inr N \<Rightarrow>
       (case Tensor_size XQ 1 of Inl f \<Rightarrow> Inl f | Inr K \<Rightarrow>
       (case KBatch_of splitK of None \<Rightarrow> Inl Undefined_behaviour | Some KBatch \<Rightarrow>
       (case gemm_a8w8_types (dtype XQ) (dtype x_scale) (dtype Y) of
          Inl f \<Rightarrow> Inl f
        | Inr (AB, D, E) \<Rightarrow>
           (case rowwise_dispatch (lookup (AB, D, E)) (to_int M) (to_int N) (to_int K) of
              None \<Rightarrow> Inl Undefined_behaviour
            | Some it \<Rightarrow>
                Inr \<lparr>entry_point = it, ABDataType = AB, DDataType = D, EDataType = E,
                     arg_XQ = XQ, arg_WQ = WQ, arg_x_scale = x_scale, arg_w_scale = w_scale,
                     arg_Y = Y, arg_bias = bias, arg_KBatch = KBatch\<rparr>)))))))"

text \<open>
  The kernels are not among the sources. A kernel is run by the parameter \<open>launch\<close>:
  it changes the device memory (any type \<open>'st\<close>) or throws; the tensor it returns is
  discarded by \<open>gemm_a8w8\<close>, which returns \<open>Y\<close>.
\<close>

definition gemm_a8w8 ::
  "(ck_type \<times> ck_type \<times> ck_type \<Rightarrow> RowwiseKernelMap) \<Rightarrow> (kernel_call \<Rightarrow> 'st \<Rightarrow> cpp_exception + 'st)
     \<Rightarrow> Tensor \<Rightarrow> Tensor \<Rightarrow> Tensor \<Rightarrow> Tensor \<Rightarrow> Tensor \<Rightarrow> Tensor option \<Rightarrow> int \<Rightarrow> 'st
     \<Rightarrow> fault + Tensor \<times> 'st" where
  "gemm_a8w8 lookup launch XQ WQ x_scale w_scale Y bias splitK st =
    (case gemm_a8w8_call lookup XQ WQ x_scale w_scale Y bias splitK of
       Inl f \<Rightarrow> Inl f
     | Inr c \<Rightarrow>
        (case launch c st of
           Inl e \<Rightarrow> Inl (Throws e)
         | Inr st' \<Rightarrow> Inr (Y, st')))"

text \<open>
  The data type checks of \<open>gemm_a8w8\<close> taken together: the three leading
  \<open>TORCH_CHECK\<close>s hold and the output type is one that the chains support.
\<close>

definition dtype_checks :: "Tensor \<Rightarrow> Tensor \<Rightarrow> Tensor \<Rightarrow> Tensor \<Rightarrow> Tensor \<Rightarrow> Tensor option \<Rightarrow> bool" where
  "dtype_checks XQ WQ x_scale w_scale Y bias =
    (((dtype XQ = Char_dtype \<or> dtype XQ = torch_fp8) \<and> dtype XQ = dtype WQ)
     \<and> dtype x_scale = dtype w_scale
     \<and> (case bias of None \<Rightarrow> True | Some b \<Rightarrow> dtype b = dtype Y)
     \<and> (dtype Y = Half \<or> dtype Y = BFloat16))"

text \<open>A small lookup table for the concrete instances below.\<close>

definition example_lookup :: RowwiseKernelMap where
  "example_lookup =
    [(16, 1280, 8192) \<mapsto> Manifest_kernel ''tuned_16'',
     (512, 1280, 8192) \<mapsto> Manifest_kernel ''tuned_512'',
     (20480, 1280, 8192) \<mapsto> Manifest_kernel ''tuned_20480'']"

subsection \<open>Concrete processes for the instances below\<close>

text \<open>
  A fresh process with home directory \<open>/home/u\<close>, no override variables, and one built
  kernel folder \<open>foo\<close> whose library exports \<open>k_abcd1234\<close>; a second folder holds a
  file that is not a shared object, a third a library without that symbol.
\<close>

definition example_process :: process where
  "example_process =
    \<lparr>getenv = [''HOME'' \<mapsto> ''/home/u''],
     files = [''/home/u/.aiter/build/foo/lib.so'' \<mapsto> Shared_object [''k_abcd1234''],
              ''/home/u/.aiter/build/broken/lib.so'' \<mapsto> Other_file,
              ''/home/u/.aiter/build/other/lib.so'' \<mapsto> Shared_object [''k_ffff0000'']],
     aiter_root_dir = None, libs = None, func_names = None, dlopen_calls = []\<rparr>"


text \<open>
  A stand-in for the digest function in closed instances: the bytes of the text itself,
  so that different texts have different digests.
\<close>

definition example_md5 :: "string \<Rightarrow> 8 word list" where
  "example_md5 s = map (\<lambda>c. of_nat (of_char c)) s"

subsection \<open>Signatures that differ only in letter case\<close>

text \<open>
  Two bytes are the same up to letter case when they are equal, or one is an upper-case
  ASCII letter (\<open>A\<close> to \<open>Z\<close>, codes 65 to 90) and the other is its lower-case
  form, 32 codes above. Two signatures differ only in letter case when they have the
  same number of descriptors, of the same lengths, and agree byte by byte up to case.
\<close>

definition same_up_to_case :: "char \<Rightarrow> char \<Rightarrow> bool" where
  "same_up_to_case c d =
    (c = d
     \<or> (65 \<le> (of_char c :: nat) \<and> (of_char c :: nat) \<le> 90 \<and> (of_char d :: nat) = of_char c + 32)
     \<or> (65 \<le> (of_char d :: nat) \<and> (of_char d :: nat) \<le> 90 \<and> (of_char c :: nat) = of_char d + 32))"

definition differ_only_in_case :: "string list \<Rightarrow> string list \<Rightarrow> bool" where
  "differ_only_in_case a b = list_all2 (list_all2 same_up_to_case) a b"

text \<open>
  What \<open>get_default_func_name\<close> needs of two signatures to treat them alike: the same
  number of descriptors, of the same lengths, whose bytes \<open>std_tolower\<close> maps pairwise
  to the same byte.
\<close>

definition same_lower :: "(char \<Rightarrow> char) \<Rightarrow> string list \<Rightarrow> string list \<Rightarrow> bool" where
  "same_lower std_tolower a b = list_all2 (list_all2 (\<lambda>c d. std_tolower c = std_tolower d)) a b"

text \<open>
  \<open>std::tolower\<close> under a Turkish locale with the single-byte encoding ISO-8859-9.
  The lower case of \<open>I\<close> is the dotless i (byte \<open>0xFD\<close>), not \<open>i\<close>; the dotted
  capital (byte \<open>0xDD\<close>) has the lower case \<open>i\<close>; the other capitals, ASCII and
  accented (\<open>0xC0\<close> to \<open>0xDE\<close> without \<open>0xD7\<close>), are 32 below their lower
  case.
\<close>

definition tolower_tr_TR :: "char \<Rightarrow> char" where
  "tolower_tr_TR c =
    (if c = CHR ''I'' then char_of (253 :: nat)
     else if (of_char c :: nat) = 221 then CHR ''i''
     else if (65 \<le> (of_char c :: nat) \<and> (of_char c :: nat) \<le> 90)
           \<or> (192 \<le> (of_char c :: nat) \<and> (of_char c :: nat) \<le> 222 \<and> (of_char c :: nat) \<noteq> 215)
          then char_of ((of_char c :: nat) + 32)
     else c)"

subsection \<open>Size settings without a number\<close>

text \<open>
  A text has no leading number when, after white space and an optional sign, it is at
  its end or at a byte that is not a decimal digit.
\<close>

definition no_leading_number :: "string \<Rightarrow> bool" where
  "no_leading_number s =
    (case dropWhile isspace s of
       [] \<Rightarrow> True
     | c # u \<Rightarrow>
         if c = CHR ''-'' \<or> c = CHR ''+'' then (case u of [] \<Rightarrow> True | d # v \<Rightarrow> \<not> isdigit d)
         else \<not> isdigit c)"

subsection \<open>Concrete tensors for the instances below\<close>

definition example_XQ :: Tensor where
  "example_XQ = \<lparr>impl = 1, dtype = Char_dtype, sizes = [300, 8192]\<rparr>"

definition example_XQ_1d :: Tensor where
  "example_XQ_1d = \<lparr>impl = 1, dtype = Char_dtype, sizes = [8192]\<rparr>"

definition example_WQ :: Tensor where
  "example_WQ = \<lparr>impl = 2, dtype = Char_dtype, sizes = [1280, 8192]\<rparr>"

definition example_x_scale :: Tensor where
  "example_x_scale = \<lparr>impl = 3, dtype = Float, sizes = [300, 1]\<rparr>"

definition example_w_scale :: Tensor where
  "example_w_scale = \<lparr>impl = 4, dtype = Float, sizes = [1, 1280]\<rparr>"

definition example_Y :: Tensor where
  "example_Y = \<lparr>impl = 5, dtype = Half, sizes = [300, 1280]\<rparr>"

text \<open>Lookup tables for the instances: every instantiation has the table \<open>example_lookup\<close>.\<close>

definition example_tables :: "ck_type \<times> ck_type \<times> ck_type \<Rightarrow> RowwiseKernelMap" where
  "example_tables t = example_lookup"

text \<open>A kernel launcher that records the calls it receives.\<close>

definition recording_launch :: "kernel_call \<Rightarrow> kernel_call list \<Rightarrow> cpp_exception + kernel_call list" where
  "recording_launch c calls = Inr (c # calls)"

section \<open>Properties of the shape dispatch\<close>

lemma bit_width_bounds:
  "0 < n \<Longrightarrow> 2 ^ (bit_width n - 1) \<le> n \<and> n < 2 ^ bit_width n"
proof (induction n rule: bit_width.induct)
  case (1 n)
  show ?case
  proof (cases "n div 2 = 0")
    case True
    with "1.prems" have "n = 1" by presburger
    then show ?thesis by (simp add: bit_width.simps)
  next
    case False
    then have pos: "0 < n div 2" by simp
    from "1.IH" [OF _ pos] "1.prems"
    have ih: "2 ^ (bit_width (n div 2) - 1) \<le> n div 2" "n div 2 < 2 ^ bit_width (n div 2)"
      by simp_all
    have w: "bit_width n = Suc (bit_width (n div 2))"
      using "1.prems" by (subst bit_width.simps) simp
    have wpos: "0 < bit_width (n div 2)"
      using pos by (subst bit_width.simps) simp
    then obtain k where k: "bit_width (n div 2) = Suc k"
      by (cases "bit_width (n div 2)") simp_all
    from ih k have "2 * 2 ^ k \<le> n" "n < 2 * 2 ^ Suc k" by simp_all
    then show ?thesis by (simp add: w k)
  qed
qed

lemma int_lt_pow2:
  fixes n :: nat
  assumes "n < 2 ^ w"
  shows "int n < 2 ^ w"
proof -
  from assms have "int n < int (2 ^ w)" by (simp only: of_nat_less_iff)
  then show ?thesis by (simp only: of_nat_power of_nat_numeral)
qed

lemma int_ge_pow2:
  fixes n :: nat
  assumes "2 ^ k \<le> n"
  shows "2 ^ k \<le> int n"
proof -
  from assms have "int (2 ^ k) \<le> int n" by (simp only: of_nat_le_iff)
  then show ?thesis by (simp only: of_nat_power of_nat_numeral)
qed

lemma bit_width_le:
  assumes "n < 2 ^ k"
  shows "bit_width n \<le> k"
proof (cases "n = 0")
  case True
  then show ?thesis by (simp add: bit_width.simps)
next
  case False
  then have "2 ^ (bit_width n - 1) \<le> n" using bit_width_bounds by simp
  with assms have "(2::nat) ^ (bit_width n - 1) < 2 ^ k" by (rule le_less_trans [rotated])
  then have "bit_width n - 1 < k"
    by (rule power_less_imp_less_exp [of 2, rotated]) simp
  then show ?thesis by simp
qed

lemma nextPow2_small:
  assumes "2 \<le> M" "M \<le> 16384"
  shows "\<exists>e. nextPow2 (word_of_int M) = Some (2 ^ e) \<and> M \<le> 2 ^ e \<and> (2::int) ^ e < 2 * M"
proof -
  let ?w = "word_of_int M :: 32 word"
  have uM: "unat ?w = nat M"
    using assms by (simp add: unat_eq_nat_uint uint_word_of_int take_bit_int_eq_self)
  have nle: "\<not> ?w \<le> 1"
    using assms uM by (simp add: word_le_nat_alt)
  have "?w - 1 = word_of_int (M - 1)" by simp
  then have u1: "unat (?w - 1) = nat (M - 1)"
    using assms
    by (simp add: unat_eq_nat_uint uint_word_of_int take_bit_int_eq_self del: of_int_diff)
  define n where "n = nat (M - 1)"
  have npos: "0 < n" and nlt: "n < 2 ^ 14" using assms by (simp_all add: n_def)
  have b: "2 ^ (bit_width n - 1) \<le> n" "n < 2 ^ bit_width n"
    using bit_width_bounds [OF npos] by simp_all
  have wle: "bit_width n \<le> 14" using bit_width_le [OF nlt] .
  have wpos: "0 < bit_width n" using npos by (subst bit_width.simps) simp
  have sh: "32 - builtin_clz (?w - 1) = bit_width n"
    using wle by (simp add: builtin_clz_def u1 n_def)
  have np: "nextPow2 ?w = Some (2 ^ bit_width n)"
    using nle wle by (simp add: nextPow2_def sh Let_def)
  obtain k where k: "bit_width n = Suc k" using wpos by (cases "bit_width n") simp_all
  have Mn: "M = int n + 1" using assms by (simp add: n_def)
  have ge: "M \<le> 2 ^ bit_width n"
    using int_lt_pow2 [OF b(2)] Mn by linarith
  from b(1) k have "2 ^ k \<le> n" by simp
  from int_ge_pow2 [OF this] have "(2::int) ^ k \<le> int n" .
  moreover have "(2::int) ^ bit_width n = 2 * 2 ^ k" using k by simp
  ultimately have "(2::int) ^ bit_width n < 2 * M" using Mn by linarith
  with np ge show ?thesis by blast
qed

lemma padded_m_positive:
  assumes "0 < M"
  shows "\<exists>p. padded_m M = Some p \<and> M \<le> p \<and>
          (if 1 < M \<and> M \<le> 16 then p = 16
           else if M \<le> 16384 then (\<exists>e. p = 2 ^ e) \<and> p < 2 * M
           else if M \<le> 20480 then p = 20480
           else p = M)"
proof -
  consider "M = 1" | "1 < M" "M \<le> 16" | "16 < M" "M \<le> 16384"
    | "16384 < M" "M \<le> 20480" | "20480 < M"
    using assms by linarith
  then show ?thesis
  proof cases
    case 1
    have "padded_m 1 = Some 1" by (simp add: padded_m_def nextPow2_def)
    moreover have "\<exists>e. (1::int) = 2 ^ e" by (rule exI [of _ 0]) simp
    ultimately show ?thesis using 1 by simp
  next
    case 2
    then show ?thesis by (simp add: padded_m_def)
  next
    case 3
    then have "2 \<le> M" by simp
    from nextPow2_small [OF this 3(2)] obtain e where
      e: "nextPow2 (word_of_int M) = Some (2 ^ e)" "M \<le> 2 ^ e" "(2::int) ^ e < 2 * M"
      by blast
    have "padded_m M = Some (2 ^ e)" using 3 e(1) by (simp add: padded_m_def)
    then show ?thesis using 3 e(2,3) by auto
  next
    case 4
    then show ?thesis by (simp add: padded_m_def)
  next
    case 5
    then show ?thesis by (simp add: padded_m_def)
  qed
qed

lemma rowwise_heuristic_dispatch_in_ladder:
  "rowwise_heuristic_dispatch M N K \<in> set heuristic_kernels"
  by (simp add: rowwise_heuristic_dispatch_def heuristic_kernels_def)

text \<open>
  C2. For every \<open>(M, N, K)\<close> that is a key of the exact lookup table, the dispatch
  returns the kernel stored under that key: the first lookup decides, and neither the
  padding nor the heuristic is consulted.
\<close>

theorem rowwise_dispatch_exact_hit:
  assumes "lookup (M, N, K) = Some v"
  shows "rowwise_dispatch lookup M N K = Some v"
  using assms by (simp add: rowwise_dispatch_def)

theorem rowwise_dispatch_exact_hit_witness:
  "example_lookup (512, 1280, 8192) = Some (Manifest_kernel ''tuned_512'')
   \<and> rowwise_dispatch example_lookup 512 1280 8192 = Some (Manifest_kernel ''tuned_512'')
   \<and> rowwise_heuristic_dispatch 512 1280 8192 \<noteq> Manifest_kernel ''tuned_512''"
proof -
  have h: "example_lookup (512, 1280, 8192) = Some (Manifest_kernel ''tuned_512'')"
    by (simp add: example_lookup_def)
  show ?thesis
    using h rowwise_dispatch_exact_hit [of example_lookup 512 1280 8192]
    by (simp add: rowwise_heuristic_dispatch_def)
qed

text \<open>
  C3. For every positive \<open>M\<close> whose exact lookup misses, the dispatch pads \<open>M\<close>:
  \<open>M\<close> in \<open>(1, 16]\<close> becomes 16; otherwise \<open>M \<le> 16384\<close> becomes a power of two that
  is at least \<open>M\<close> and less than \<open>2 * M\<close> (the next power of two); otherwise
  \<open>M \<le> 20480\<close> becomes 20480; otherwise \<open>M\<close> is unchanged. The padded value is never
  smaller than \<open>M\<close>, and a table entry under \<open>(padded_M, N, K)\<close> is what the dispatch
  returns. In particular 5 pads to 16, 300 to 512 and 18000 to 20480.
\<close>

theorem rowwise_dispatch_padded_hit:
  assumes "0 < M" and "lookup (M, N, K) = None"
  shows "(\<exists>p. padded_m M = Some p \<and> M \<le> p
          \<and> (1 < M \<and> M \<le> 16 \<longrightarrow> p = 16)
          \<and> (\<not> (1 < M \<and> M \<le> 16) \<and> M \<le> 16384 \<longrightarrow> (\<exists>e. p = 2 ^ e) \<and> p < 2 * M)
          \<and> (16384 < M \<and> M \<le> 20480 \<longrightarrow> p = 20480)
          \<and> (20480 < M \<longrightarrow> p = M)
          \<and> (\<forall>v. lookup (p, N, K) = Some v \<longrightarrow> rowwise_dispatch lookup M N K = Some v))
        \<and> padded_m 5 = Some 16 \<and> padded_m 300 = Some 512 \<and> padded_m 18000 = Some 20480"
proof -
  from padded_m_positive [OF assms(1)] obtain p where
    p: "padded_m M = Some p" "M \<le> p"
       "if 1 < M \<and> M \<le> 16 then p = 16
        else if M \<le> 16384 then (\<exists>e. p = 2 ^ e) \<and> p < 2 * M
        else if M \<le> 20480 then p = 20480
        else p = M"
    by blast
  have hit: "\<forall>v. lookup (p, N, K) = Some v \<longrightarrow> rowwise_dispatch lookup M N K = Some v"
    using assms(2) p(1) by (simp add: rowwise_dispatch_def)
  have b1: "1 < M \<and> M \<le> 16 \<longrightarrow> p = 16" using p(3) by simp
  have b2: "\<not> (1 < M \<and> M \<le> 16) \<and> M \<le> 16384 \<longrightarrow> (\<exists>e. p = 2 ^ e) \<and> p < 2 * M"
    using p(3) by (simp split: if_splits)
  have b3: "16384 < M \<and> M \<le> 20480 \<longrightarrow> p = 20480" using p(3) by (simp split: if_splits)
  have b4: "20480 < M \<longrightarrow> p = M" using p(3) by (simp split: if_splits)
  from p(1,2) b1 b2 b3 b4 hit
  have general: "\<exists>p. padded_m M = Some p \<and> M \<le> p
          \<and> (1 < M \<and> M \<le> 16 \<longrightarrow> p = 16)
          \<and> (\<not> (1 < M \<and> M \<le> 16) \<and> M \<le> 16384 \<longrightarrow> (\<exists>e. p = 2 ^ e) \<and> p < 2 * M)
          \<and> (16384 < M \<and> M \<le> 20480 \<longrightarrow> p = 20480)
          \<and> (20480 < M \<longrightarrow> p = M)
          \<and> (\<forall>v. lookup (p, N, K) = Some v \<longrightarrow> rowwise_dispatch lookup M N K = Some v)"
    by blast
  have i5: "padded_m 5 = Some 16" by (simp add: padded_m_def)
  have i300: "padded_m 300 = Some 512" by code_simp
  have i18000: "padded_m 18000 = Some 20480" by (simp add: padded_m_def)
  from general i5 i300 i18000 show ?thesis by (intro conjI)
qed

theorem rowwise_dispatch_padded_hit_witness:
  "(0 < (5::int) \<and> example_lookup (5, 1280, 8192) = None
     \<and> rowwise_dispatch example_lookup 5 1280 8192 = Some (Manifest_kernel ''tuned_16''))
   \<and> (0 < (300::int) \<and> example_lookup (300, 1280, 8192) = None
     \<and> rowwise_dispatch example_lookup 300 1280 8192 = Some (Manifest_kernel ''tuned_512''))
   \<and> (0 < (18000::int) \<and> example_lookup (18000, 1280, 8192) = None
     \<and> rowwise_dispatch example_lookup 18000 1280 8192 = Some (Manifest_kernel ''tuned_20480''))"
proof -
  have m: "example_lookup (5, 1280, 8192) = None" "example_lookup (300, 1280, 8192) = None"
    "example_lookup (18000, 1280, 8192) = None"
    by (simp_all add: example_lookup_def)
  have h: "example_lookup (16, 1280, 8192) = Some (Manifest_kernel ''tuned_16'')"
    "example_lookup (512, 1280, 8192) = Some (Manifest_kernel ''tuned_512'')"
    "example_lookup (20480, 1280, 8192) = Some (Manifest_kernel ''tuned_20480'')"
    by (simp_all add: example_lookup_def)
  have a: "rowwise_dispatch example_lookup 5 1280 8192 = Some (Manifest_kernel ''tuned_16'')"
    using rowwise_dispatch_padded_hit [of 5 example_lookup 1280 8192] m(1) h(1) by auto
  have b: "rowwise_dispatch example_lookup 300 1280 8192 = Some (Manifest_kernel ''tuned_512'')"
    using rowwise_dispatch_padded_hit [of 300 example_lookup 1280 8192] m(2) h(2) by auto
  have c: "rowwise_dispatch example_lookup 18000 1280 8192
            = Some (Manifest_kernel ''tuned_20480'')"
    using rowwise_dispatch_padded_hit [of 18000 example_lookup 1280 8192] m(3) h(3) by auto
  from m a b c show ?thesis by simp
qed

text \<open>
  C4. For all \<open>M, N, K \<ge> 1\<close> the dispatch returns exactly one kernel (it never reaches
  the undefined shift of \<open>nextPow2\<close>): a table entry, or else the kernel of the
  heuristic ladder. The ladder is total: read as the list of its guards in source
  order, its first true guard exists and its kernel is the one returned.
\<close>

theorem rowwise_dispatch_total:
  assumes "1 \<le> M" and "1 \<le> N" and "1 \<le> K"
  shows "(\<exists>!v. rowwise_dispatch lookup M N K = Some v)
         \<and> (\<exists>v. rowwise_dispatch lookup M N K = Some v
                \<and> (v \<in> ran lookup \<or> v = rowwise_heuristic_dispatch M N K))
         \<and> map_option snd (find fst (heuristic_ladder M N K))
             = Some (rowwise_heuristic_dispatch M N K)
         \<and> rowwise_heuristic_dispatch M N K \<in> set heuristic_kernels"
proof -
  from assms(1) have "0 < M" by simp
  from padded_m_positive [OF this] obtain p where p: "padded_m M = Some p" by blast
  have ex: "\<exists>v. rowwise_dispatch lookup M N K = Some v
                \<and> (v \<in> ran lookup \<or> v = rowwise_heuristic_dispatch M N K)"
    using p by (auto simp: rowwise_dispatch_def ran_def split: option.splits)
  then have uniq: "\<exists>!v. rowwise_dispatch lookup M N K = Some v" by auto
  have ladder: "map_option snd (find fst (heuristic_ladder M N K))
             = Some (rowwise_heuristic_dispatch M N K)"
    by (auto simp: heuristic_ladder_def rowwise_heuristic_dispatch_def)
  from uniq ex ladder rowwise_heuristic_dispatch_in_ladder show ?thesis by (intro conjI)
qed

theorem rowwise_dispatch_total_witness:
  "(1::int) \<le> 1 \<and> (1::int) \<le> 7168 \<and> (1::int) \<le> 4096
   \<and> rowwise_dispatch Map.empty 1 7168 4096
       = Some a8w8_rowwise_64x16x16x256_16x16_1x1_16x4x1_16x4x1_1x16x1x4_4x4x1_1x1_intrawave_v1
   \<and> rowwise_dispatch Map.empty 4096 512 4096
       = Some a8w8_rowwise_256x224x256x128_16x16_7x8_8x32x1_8x32x1_1x32x1x8_8x8x1_1x2_intrawave_v3"
proof -
  have a: "rowwise_heuristic_dispatch 1 7168 4096
     = a8w8_rowwise_64x16x16x256_16x16_1x1_16x4x1_16x4x1_1x16x1x4_4x4x1_1x1_intrawave_v1"
    by (simp add: rowwise_heuristic_dispatch_def)
  have b: "rowwise_heuristic_dispatch 4096 512 4096
     = a8w8_rowwise_256x224x256x128_16x16_7x8_8x32x1_8x32x1_1x32x1x8_8x8x1_1x2_intrawave_v3"
    by (simp add: rowwise_heuristic_dispatch_def)
  have c: "rowwise_dispatch Map.empty 1 7168 4096
       = Some a8w8_rowwise_64x16x16x256_16x16_1x1_16x4x1_16x4x1_1x16x1x4_4x4x1_1x1_intrawave_v1"
    using rowwise_dispatch_total [of 1 7168 4096 Map.empty]
    by (auto simp: a)
  have e: "rowwise_dispatch Map.empty 4096 512 4096
       = Some a8w8_rowwise_256x224x256x128_16x16_7x8_8x32x1_8x32x1_1x32x1x8_8x8x1_1x2_intrawave_v3"
    using rowwise_dispatch_total [of 4096 512 4096 Map.empty]
    by (auto simp: b)
  from c e show ?thesis by simp
qed

section \<open>Properties of the kernel cache\<close>

subsection \<open>Auxiliary facts\<close>

lemma same_up_to_case_tolower_C:
  assumes "same_up_to_case c d"
  shows "tolower_C_locale c = tolower_C_locale d"
proof (cases "c = d")
  case True
  then show ?thesis by simp
next
  case False
  define n :: nat where "n = of_char c"
  define m :: nat where "m = of_char d"
  from assms False
  consider "65 \<le> n" "n \<le> 90" "m = n + 32" | "65 \<le> m" "m \<le> 90" "n = m + 32"
    by (auto simp: same_up_to_case_def n_def m_def)
  then show ?thesis
  proof cases
    case 1
    have "tolower_C_locale c = char_of (n + 32)" using 1 by (simp add: tolower_C_locale_def n_def)
    also have "\<dots> = char_of m" using 1 by simp
    also have "\<dots> = d" by (simp add: m_def)
    also have "d = tolower_C_locale d" using 1 by (simp add: tolower_C_locale_def m_def [symmetric])
    finally show ?thesis .
  next
    case 2
    have "tolower_C_locale d = char_of (m + 32)" using 2 by (simp add: tolower_C_locale_def m_def)
    also have "\<dots> = char_of n" using 2 by simp
    also have "\<dots> = c" by (simp add: n_def)
    also have "c = tolower_C_locale c" using 2 by (simp add: tolower_C_locale_def n_def [symmetric])
    finally show ?thesis by simp
  qed
qed

lemma differ_only_in_case_same_lower:
  assumes "differ_only_in_case a b"
  shows "same_lower tolower_C_locale a b"
proof -
  have inner: "list_all2 (\<lambda>c d. tolower_C_locale c = tolower_C_locale d) x y"
    if "list_all2 same_up_to_case x y" for x y
    using that by (rule list_all2_mono) (rule same_up_to_case_tolower_C)
  from assms have "list_all2 (list_all2 same_up_to_case) a b"
    by (simp add: differ_only_in_case_def)
  then have "list_all2 (list_all2 (\<lambda>c d. tolower_C_locale c = tolower_C_locale d)) a b"
    by (rule list_all2_mono) (rule inner)
  then show ?thesis by (simp add: same_lower_def)
qed

lemma map_lower_same:
  "list_all2 (\<lambda>c d. lc c = lc d) x y \<Longrightarrow> map lc x = map lc y"
  by (induction rule: list_all2_induct) simp_all

lemma join_same:
  "list_all2 (list_all2 (\<lambda>c d. lc c = lc d)) a b \<Longrightarrow>
     map lc (join a sep) = map lc (join b sep)"
proof (induction a sep arbitrary: b rule: join.induct)
  case (1 sep)
  then show ?case by simp
next
  case (2 x sep)
  then show ?case by (auto simp: list_all2_Cons1 map_lower_same)
next
  case (3 x y ys sep)
  from "3.prems" obtain x' y' ys' where b: "b = x' # y' # ys'"
    and x: "list_all2 (\<lambda>c d. lc c = lc d) x x'"
    and r: "list_all2 (list_all2 (\<lambda>c d. lc c = lc d)) (y # ys) (y' # ys')"
    by (auto simp: list_all2_Cons1)
  from "3.IH" [OF r] x show ?case by (simp add: b map_lower_same)
qed

lemma args_str_same: "same_lower lc a b \<Longrightarrow> args_str lc a = args_str lc b"
  by (simp add: same_lower_def args_str_def join_same)

lemma lru_get_hit:
  "map_of (items c) k = Some v \<Longrightarrow>
     lru_get c k = (Some v, c\<lparr>items := (k, v) # filter (\<lambda>e. fst e \<noteq> k) (items c)\<rparr>)"
  by (simp add: lru_get_def)

lemma lru_get_Some_cached:
  "lru_get c k = (Some v, c') \<Longrightarrow> map_of (items c') k = Some v"
  by (auto simp: lru_get_def split: option.splits)

lemma lru_get_None:
  "lru_get c k = (None, c') \<Longrightarrow> c' = c \<and> map_of (items c) k = None"
  by (auto simp: lru_get_def split: option.splits)

lemma get_default_func_name_cached:
  assumes "get_default_func_name lc md5 ps md_name args = (Inr name, ps1)"
  shows "\<exists>c. func_names ps1 = Some c \<and> map_of (items c) (args_str lc args) = Some name"
  using assms
  by (auto simp: get_default_func_name_def split: prod.splits sum.splits option.splits
           dest: lru_get_Some_cached)

lemma func_names_once_Some: "func_names ps = Some c \<Longrightarrow> func_names_once ps = (Inr c, ps)"
  by (simp add: func_names_once_def)

lemma get_default_func_name_hit:
  assumes "func_names ps = Some c" "map_of (items c) (args_str lc args) = Some name"
  shows "fst (get_default_func_name lc md5 ps md_name args) = Inr name"
  using assms by (simp add: get_default_func_name_def func_names_once_Some lru_get_hit)

subsection \<open>The identifier cache\<close>

text \<open>
  C8 (amended). Two argument signatures whose bytes \<open>std::tolower\<close> maps pairwise to
  the same bytes have the same canonical string, so \<open>get_default_func_name\<close> does the
  same on both from any state, and when it has returned an identifier for one of them
  it returns the same identifier for the other. Under the "C" locale these are, among
  others, all signatures that differ only in the case of ASCII letters.
\<close>

theorem get_default_func_name_case_insensitive:
  "(same_lower lc a b
      \<longrightarrow> args_str lc a = args_str lc b
         \<and> get_default_func_name lc md5 ps md_name a = get_default_func_name lc md5 ps md_name b
         \<and> (\<forall>name ps1. get_default_func_name lc md5 ps md_name a = (Inr name, ps1)
               \<longrightarrow> fst (get_default_func_name lc md5 ps1 md_name b) = Inr name))
   \<and> (differ_only_in_case a b \<longrightarrow> same_lower tolower_C_locale a b)"
proof (intro conjI impI)
  assume s: "same_lower lc a b"
  then show eq: "args_str lc a = args_str lc b" by (rule args_str_same)
  show "get_default_func_name lc md5 ps md_name a = get_default_func_name lc md5 ps md_name b"
    unfolding get_default_func_name_def eq by (rule refl)
  show "\<forall>name ps1. get_default_func_name lc md5 ps md_name a = (Inr name, ps1)
               \<longrightarrow> fst (get_default_func_name lc md5 ps1 md_name b) = Inr name"
  proof (intro allI impI)
    fix name ps1
    assume "get_default_func_name lc md5 ps md_name a = (Inr name, ps1)"
    from get_default_func_name_cached [OF this] obtain c where
      "func_names ps1 = Some c" "map_of (items c) (args_str lc b) = Some name"
      by (auto simp: eq)
    then show "fst (get_default_func_name lc md5 ps1 md_name b) = Inr name"
      by (rule get_default_func_name_hit)
  qed
next
  assume "differ_only_in_case a b"
  then show "same_lower tolower_C_locale a b" by (rule differ_only_in_case_same_lower)
qed

theorem get_default_func_name_case_insensitive_witness:
  "differ_only_in_case [''FP16'', ''Bf16'', ''128''] [''fp16'', ''bF16'', ''128'']
   \<and> same_lower tolower_C_locale [''FP16'', ''Bf16'', ''128''] [''fp16'', ''bF16'', ''128'']
   \<and> args_str tolower_C_locale [''FP16'', ''Bf16'', ''128''] = ''fp16_bf16_128''
   \<and> args_str tolower_C_locale [''fp16'', ''bF16'', ''128''] = ''fp16_bf16_128''
   \<and> fst (get_default_func_name tolower_C_locale example_md5 example_process ''gemm''
            [''FP16'', ''Bf16'', ''128''])
       = Inr ''gemm_667031365f626631365f313238''
   \<and> fst (get_default_func_name tolower_C_locale example_md5
            (snd (get_default_func_name tolower_C_locale example_md5 example_process ''gemm''
                    [''FP16'', ''Bf16'', ''128'']))
            ''gemm'' [''fp16'', ''bF16'', ''128''])
       = Inr ''gemm_667031365f626631365f313238''"
proof -
  let ?a = "[''FP16'', ''Bf16'', ''128'']" and ?b = "[''fp16'', ''bF16'', ''128'']"
  have d: "differ_only_in_case ?a ?b"
    by (simp add: differ_only_in_case_def same_up_to_case_def)
  have a: "args_str tolower_C_locale ?a = ''fp16_bf16_128''"
    by code_simp
  have r: "fst (get_default_func_name tolower_C_locale example_md5 example_process ''gemm'' ?a)
             = Inr ''gemm_667031365f626631365f313238''"
    by code_simp
  note T = get_default_func_name_case_insensitive
      [of tolower_C_locale ?a ?b example_md5 example_process "''gemm''"]
  from T [THEN conjunct2] d have s: "same_lower tolower_C_locale ?a ?b" by blast
  from T [THEN conjunct1] s have t1: "args_str tolower_C_locale ?a = args_str tolower_C_locale ?b"
    by blast
  note t3 = T [THEN conjunct1, rule_format, OF s, THEN conjunct2, THEN conjunct2, rule_format]
  have p: "get_default_func_name tolower_C_locale example_md5 example_process ''gemm'' ?a
     = (Inr ''gemm_667031365f626631365f313238'',
        snd (get_default_func_name tolower_C_locale example_md5 example_process ''gemm'' ?a))"
    by (rule prod_eqI) (simp_all add: r)
  from d s a t1 r t3 [OF p] show ?thesis by simp
qed

text \<open>
  C8 as stated fails where \<open>std::tolower\<close> is not that of the "C" locale: under the
  Turkish locale the signatures \<open>INT8\<close> and \<open>int8\<close>, which differ only in letter
  case, have different canonical strings and get different identifiers.
\<close>

theorem get_default_func_name_locale_counterexample:
  "differ_only_in_case [''INT8''] [''int8'']
   \<and> args_str tolower_tr_TR [''INT8''] \<noteq> args_str tolower_tr_TR [''int8'']
   \<and> fst (get_default_func_name tolower_tr_TR example_md5 example_process ''gemm'' [''int8''])
       = Inr ''gemm_696e7438''
   \<and> fst (get_default_func_name tolower_tr_TR example_md5
            (snd (get_default_func_name tolower_tr_TR example_md5 example_process ''gemm''
                    [''int8'']))
            ''gemm'' [''INT8''])
       = Inr ''gemm_fd6e7438''"
proof -
  have d: "differ_only_in_case [''INT8''] [''int8'']"
    by (simp add: differ_only_in_case_def same_up_to_case_def)
  have a: "args_str tolower_tr_TR [''INT8''] \<noteq> args_str tolower_tr_TR [''int8'']"
    by code_simp
  have r: "fst (get_default_func_name tolower_tr_TR example_md5 example_process ''gemm''
                 [''int8'']) = Inr ''gemm_696e7438''"
    by code_simp
  have q: "fst (get_default_func_name tolower_tr_TR example_md5
            (snd (get_default_func_name tolower_tr_TR example_md5 example_process ''gemm''
                    [''int8'']))
            ''gemm'' [''INT8''])
       = Inr ''gemm_fd6e7438''"
    by code_simp
  from d a r q show ?thesis by (intro conjI)
qed

text \<open>
  C1. The identifier cache is keyed by the canonical string alone. After module
  \<open>mod_a\<close> has asked for the signature \<open>fp16\<close>, the same signature asked for by
  module \<open>mod_b\<close> is answered from the cache with the identifier of \<open>mod_a\<close>,
  which does not carry the name of the calling module. This holds whatever
  \<open>std::tolower\<close> and the digest are; under the "C" locale the canonical string is
  \<open>fp16\<close>.
\<close>

theorem get_default_func_name_other_module:
  "fst (get_default_func_name lc md5 example_process ''mod_a'' [''fp16''])
     = Inr (''mod_a_'' @ hash_signature md5 (args_str lc [''fp16'']))
   \<and> fst (get_default_func_name lc md5
            (snd (get_default_func_name lc md5 example_process ''mod_a'' [''fp16'']))
            ''mod_b'' [''fp16''])
     = Inr (''mod_a_'' @ hash_signature md5 (args_str lc [''fp16'']))
   \<and> ''mod_a_'' @ hash_signature md5 (args_str lc [''fp16''])
       \<noteq> ''mod_b_'' @ hash_signature md5 (args_str lc [''fp16''])
   \<and> args_str tolower_C_locale [''fp16''] = ''fp16''"
proof -
  define key where "key = args_str lc [''fp16'']"
  have m1: "atoi ''-1'' = Some (- 1)" by code_simp
  have r: "get_default_func_name lc md5 example_process ''mod_a'' [''fp16'']
     = (Inr (''mod_a_'' @ hash_signature md5 key),
        example_process\<lparr>func_names := Some \<lparr>capacity = - 1,
           items = [(key, ''mod_a_'' @ hash_signature md5 key)]\<rparr>\<rparr>)"
    by (simp add: get_default_func_name_def key_def [symmetric] func_names_once_def
          example_process_def init_lru_cache_def m1 LRUCache_new_def lru_get_def
          lru_put_def unbounded_capacity_def Let_def)
  have s: "fst (get_default_func_name lc md5
            (snd (get_default_func_name lc md5 example_process ''mod_a'' [''fp16'']))
            ''mod_b'' [''fp16''])
     = Inr (''mod_a_'' @ hash_signature md5 key)"
    by (simp add: r)
       (simp add: get_default_func_name_def key_def [symmetric] func_names_once_def lru_get_def)
  have c: "args_str tolower_C_locale [''fp16''] = ''fp16''" by code_simp
  from r s c show ?thesis by (simp add: key_def)
qed

subsection \<open>The caches and their capacity\<close>

lemma map_of_filter_key:
  "map_of (filter (\<lambda>e. fst e \<noteq> k) xs) = (map_of xs)(k := None)"
  by (induction xs) (auto simp: fun_eq_iff)

lemma lru_put_unbounded:
  assumes "unbounded_capacity (capacity c)"
  shows "capacity (lru_put c k v) = capacity c"
    and "map_of (items (lru_put c k v)) = (map_of (items c))(k \<mapsto> v)"
  using assms by (simp_all add: lru_put_def Let_def map_of_filter_key)

lemma lru_put_all_unbounded:
  "unbounded_capacity (capacity c) \<Longrightarrow>
     capacity (lru_put_all c kvs) = capacity c
     \<and> map_of (items (lru_put_all c kvs)) = map_of (rev kvs @ items c)"
proof (induction c kvs rule: lru_put_all.induct)
  case (1 c)
  then show ?case by simp
next
  case (2 c k v kvs)
  from "2.prems" have p: "capacity (lru_put c k v) = capacity c"
    "map_of (items (lru_put c k v)) = (map_of (items c))(k \<mapsto> v)"
    by (rule lru_put_unbounded)+
  from "2.prems" p(1) have "unbounded_capacity (capacity (lru_put c k v))" by simp
  from "2.IH" [OF this] p show ?case by (simp add: map_add_def fun_eq_iff)
qed

lemma lru_get_keeps_entries:
  "map_of (items (snd (lru_get c k))) = map_of (items c)"
  by (auto simp: lru_get_def map_of_filter_key fun_eq_iff split: option.splits)

lemma digits_value_no_digit:
  "(case u of [] \<Rightarrow> True | d # v \<Rightarrow> \<not> isdigit d) \<Longrightarrow> digits_value 0 u = 0"
  by (cases u) simp_all

lemma atoi_no_leading_number:
  assumes "no_leading_number s"
  shows "atoi s = Some 0"
proof (cases "dropWhile isspace s")
  case Nil
  show ?thesis unfolding atoi_def Let_def Nil by simp
next
  case (Cons c u)
  show ?thesis
  proof (cases "c = CHR ''-'' \<or> c = CHR ''+''")
    case True
    with assms Cons have "case u of [] \<Rightarrow> True | d # v \<Rightarrow> \<not> isdigit d"
      by (simp add: no_leading_number_def)
    then have dv: "digits_value 0 u = 0" by (rule digits_value_no_digit)
    show ?thesis unfolding atoi_def Let_def Cons using True dv by auto
  next
    case False
    with assms Cons have "\<not> isdigit c" by (simp add: no_leading_number_def)
    then have dv: "digits_value 0 (c # u) = 0" by simp
    show ?thesis unfolding atoi_def Let_def Cons using False dv by simp
  qed
qed

lemma libs_once_init:
  "libs ps = None \<Longrightarrow> fst (libs_once ps) = init_lru_cache (getenv ps)"
  by (simp add: libs_once_def split: sum.splits)

lemma func_names_once_init:
  "func_names ps = None \<Longrightarrow> fst (func_names_once ps) = init_lru_cache (getenv ps)"
  by (simp add: func_names_once_def split: sum.splits)

text \<open>
  C5 (amended). When the size variable is absent, \<open>init_lru_cache\<close> builds the cache
  with capacity \<open>-1\<close>; when it is set to a text with no leading number, with capacity
  0; in every case with \<open>atoi\<close> of the text. Both caches of the process are built
  that way on their first use. The capacities \<open>-1\<close> and 0 are unbounded, and a
  cache with an unbounded capacity never evicts: after any run of insertions it holds
  the latest value of every key inserted and every entry it held before, and a lookup
  removes nothing.
\<close>

theorem init_lru_cache_capacity:
  "(env ''AITER_MAX_CACHE_SIZE'' = None \<longrightarrow> init_lru_cache env = Inr (LRUCache_new (- 1)))
   \<and> (\<forall>s. env ''AITER_MAX_CACHE_SIZE'' = Some s
      \<longrightarrow> init_lru_cache env
            = (case atoi s of None \<Rightarrow> Inl Undefined_behaviour | Some n \<Rightarrow> Inr (LRUCache_new n)))
   \<and> (\<forall>s. env ''AITER_MAX_CACHE_SIZE'' = Some s \<and> no_leading_number s
      \<longrightarrow> init_lru_cache env = Inr (LRUCache_new 0))
   \<and> (libs ps = None \<longrightarrow> fst (libs_once ps) = init_lru_cache (getenv ps))
   \<and> (func_names ps = None \<longrightarrow> fst (func_names_once ps) = init_lru_cache (getenv ps))
   \<and> unbounded_capacity (- 1) \<and> unbounded_capacity 0
   \<and> (unbounded_capacity (capacity c)
      \<longrightarrow> capacity (lru_put_all c kvs) = capacity c
          \<and> map_of (items (lru_put_all c kvs)) = map_of (rev kvs @ items c)
          \<and> map_of (items (snd (lru_get c k))) = map_of (items c))"
proof -
  have m1: "atoi ''-1'' = Some (- 1)" by code_simp
  have a: "env ''AITER_MAX_CACHE_SIZE'' = None \<longrightarrow> init_lru_cache env = Inr (LRUCache_new (- 1))"
    by (simp add: init_lru_cache_def m1)
  have b: "\<forall>s. env ''AITER_MAX_CACHE_SIZE'' = Some s
      \<longrightarrow> init_lru_cache env
            = (case atoi s of None \<Rightarrow> Inl Undefined_behaviour | Some n \<Rightarrow> Inr (LRUCache_new n))"
    by (simp add: init_lru_cache_def)
  have n: "\<forall>s. env ''AITER_MAX_CACHE_SIZE'' = Some s \<and> no_leading_number s
      \<longrightarrow> init_lru_cache env = Inr (LRUCache_new 0)"
    by (simp add: init_lru_cache_def atoi_no_leading_number)
  have l: "libs ps = None \<longrightarrow> fst (libs_once ps) = init_lru_cache (getenv ps)"
    by (simp add: libs_once_init)
  have f: "func_names ps = None \<longrightarrow> fst (func_names_once ps) = init_lru_cache (getenv ps)"
    by (simp add: func_names_once_init)
  have s: "unbounded_capacity (- 1)" "unbounded_capacity 0"
    by (simp_all add: unbounded_capacity_def)
  have u: "unbounded_capacity (capacity c)
      \<longrightarrow> capacity (lru_put_all c kvs) = capacity c
          \<and> map_of (items (lru_put_all c kvs)) = map_of (rev kvs @ items c)
          \<and> map_of (items (snd (lru_get c k))) = map_of (items c)"
    using lru_put_all_unbounded [of c kvs] lru_get_keeps_entries [of c k] by simp
  from a b n l f s u show ?thesis by (intro conjI)
qed

theorem init_lru_cache_capacity_witness:
  "init_lru_cache Map.empty = Inr (LRUCache_new (- 1) :: (string, string) LRUCache)
   \<and> no_leading_number ''abc''
   \<and> init_lru_cache [''AITER_MAX_CACHE_SIZE'' \<mapsto> ''abc'']
       = Inr (LRUCache_new 0 :: (string, string) LRUCache)
   \<and> init_lru_cache [''AITER_MAX_CACHE_SIZE'' \<mapsto> ''7'']
       = Inr (LRUCache_new 7 :: (string, string) LRUCache)
   \<and> fst (libs_once example_process) = Inr (LRUCache_new (- 1))
   \<and> fst (func_names_once example_process) = Inr (LRUCache_new (- 1))
   \<and> map_of (items (lru_put_all (LRUCache_new 0)
          [(''a'', ''1''), (''b'', ''2''), (''c'', ''3''), (''a'', ''4'')]))
       = map_of [(''a'', ''4''), (''c'', ''3''), (''b'', ''2''), (''a'', ''1'')]"
proof -
  let ?c = "LRUCache_new 0 :: (string, string) LRUCache"
  let ?kvs = "[(''a'', ''1''), (''b'', ''2''), (''c'', ''3''), (''a'', ''4'')]"
  let ?abc = "[''AITER_MAX_CACHE_SIZE'' \<mapsto> ''abc'']"
  let ?seven = "[''AITER_MAX_CACHE_SIZE'' \<mapsto> ''7'']"
  have seven: "atoi ''7'' = Some 7" by code_simp
  have nl: "no_leading_number ''abc''" by code_simp
  have e: "getenv example_process = [''HOME'' \<mapsto> ''/home/u'']"
    "libs example_process = None" "func_names example_process = None"
    by (simp_all add: example_process_def)
  note T1 = init_lru_cache_capacity [of Map.empty example_process ?c ?kvs "''a''"]
  note T2 = init_lru_cache_capacity [of ?abc example_process ?c ?kvs "''a''"]
  note T3 = init_lru_cache_capacity [of ?seven example_process ?c ?kvs "''a''"]
  note T4 = init_lru_cache_capacity [of "[''HOME'' \<mapsto> ''/home/u'']" example_process ?c ?kvs "''a''"]
  from T1 [THEN conjunct1]
  have a1: "init_lru_cache Map.empty = Inr (LRUCache_new (- 1) :: (string, string) LRUCache)"
    by simp
  from T2 [THEN conjunct2, THEN conjunct2, THEN conjunct1, rule_format, of "''abc''"] nl
  have a2: "init_lru_cache ?abc = Inr (LRUCache_new 0 :: (string, string) LRUCache)"
    by simp
  from T3 [THEN conjunct2, THEN conjunct1, rule_format, of "''7''"]
  have a3: "init_lru_cache ?seven = Inr (LRUCache_new 7 :: (string, string) LRUCache)"
    by (simp add: seven)
  from T4 [THEN conjunct1]
  have i: "init_lru_cache [''HOME'' \<mapsto> ''/home/u'']
       = Inr (LRUCache_new (- 1) :: (string, SharedLibrary) LRUCache)"
    "init_lru_cache [''HOME'' \<mapsto> ''/home/u'']
       = Inr (LRUCache_new (- 1) :: (string, string) LRUCache)"
    by simp_all
  from T1 [THEN conjunct2, THEN conjunct2, THEN conjunct2, THEN conjunct1] e(2)
  have a4: "fst (libs_once example_process) = Inr (LRUCache_new (- 1))"
    by (simp add: e(1) i(1))
  from T1 [THEN conjunct2, THEN conjunct2, THEN conjunct2, THEN conjunct2, THEN conjunct1] e(3)
  have a5: "fst (func_names_once example_process) = Inr (LRUCache_new (- 1))"
    by (simp add: e(1) i(2))
  have c: "unbounded_capacity (capacity ?c)"
    by (simp add: LRUCache_new_def unbounded_capacity_def)
  from T1 [THEN conjunct2, THEN conjunct2, THEN conjunct2, THEN conjunct2, THEN conjunct2,
      THEN conjunct2, THEN conjunct2] c
  have a6: "map_of (items (lru_put_all ?c ?kvs)) = map_of (rev ?kvs @ items ?c)"
    by blast
  have "rev ?kvs @ items ?c = [(''a'', ''4''), (''c'', ''3''), (''b'', ''2''), (''a'', ''1'')]"
    by (simp add: LRUCache_new_def)
  with a6 have a7: "map_of (items (lru_put_all ?c ?kvs))
       = map_of [(''a'', ''4''), (''c'', ''3''), (''b'', ''2''), (''a'', ''1'')]"
    by simp
  from a1 nl a2 a3 a4 a5 a7 show ?thesis by (intro conjI)
qed

text \<open>
  C5 as stated fails for a size setting that is not a number but begins with one:
  \<open>2 kernels\<close> gives capacity 2, which is a bound, and the third insertion evicts
  the first key.
\<close>

theorem init_lru_cache_non_numeric_counterexample:
  "init_lru_cache [''AITER_MAX_CACHE_SIZE'' \<mapsto> ''2 kernels'']
     = Inr (LRUCache_new 2 :: (string, string) LRUCache)
   \<and> \<not> unbounded_capacity 2
   \<and> map fst (items (lru_put_all (LRUCache_new 2)
        [(''k1'', ''v1''), (''k2'', ''v2''), (''k3'', ''v3'')])) = [''k3'', ''k2'']"
proof -
  have b: "atoi ''2 kernels'' = Some 2" by code_simp
  have c1: "init_lru_cache [''AITER_MAX_CACHE_SIZE'' \<mapsto> ''2 kernels'']
     = Inr (LRUCache_new 2 :: (string, string) LRUCache)"
    by (simp add: init_lru_cache_def b)
  have c2: "\<not> unbounded_capacity 2" by (simp add: unbounded_capacity_def)
  have c3: "map fst (items (lru_put_all (LRUCache_new 2)
        [(''k1'', ''v1''), (''k2'', ''v2''), (''k3'', ''v3'')])) = [''k3'', ''k2'']"
    by (simp add: lru_put_def LRUCache_new_def unbounded_capacity_def)
  from c1 c2 c3 show ?thesis by (intro conjI)
qed

subsection \<open>The artifact cache and the invoker\<close>


lemma libs_once_Some: "libs ps = Some c \<Longrightarrow> libs_once ps = (Inr c, ps)"
  by (simp add: libs_once_def)



lemma run_lib_func_lib_cached:
  assumes "run_lib_func_lib ps func_name folder = (Inr lib, ps1)"
  shows "\<exists>c. libs ps1 = Some c \<and> map_of (items c) func_name = Some lib"
  using assms
  by (auto simp: run_lib_func_lib_def split: prod.splits sum.splits option.splits
           dest: lru_get_Some_cached)

lemma run_lib_func_lib_hit:
  assumes "libs ps = Some c" "map_of (items c) func_name = Some lib"
  shows "run_lib_func_lib ps func_name folder
     = (Inr lib, ps\<lparr>libs := Some (c\<lparr>items := (func_name, lib)
                                  # filter (\<lambda>e. fst e \<noteq> func_name) (items c)\<rparr>)\<rparr>)"
  using assms by (simp add: run_lib_func_lib_def libs_once_Some lru_get_hit)

lemma run_lib_state: "snd (run_lib ps func_name folder) = snd (run_lib_func_lib ps func_name folder)"
  by (simp add: run_lib_def split: prod.splits sum.splits)

lemma run_lib_result:
  "run_lib_func_lib ps func_name folder = (Inr lib, ps1)
     \<Longrightarrow> fst (run_lib ps func_name folder) = call lib func_name"
  by (simp add: run_lib_def)

text \<open>
  C7. When \<open>run_lib\<close> has obtained the library of an identifier (from the cache, or
  by loading it), the next \<open>run_lib\<close> with that identifier, whatever its folder,
  obtains the same \<open>SharedLibrary\<close> object, calls \<open>dlopen\<close> no more, and ends as
  the first call did.
\<close>

theorem run_lib_second_call_reuses_library:
  assumes "run_lib_func_lib ps func_name folder = (Inr lib, ps1)"
  shows "fst (run_lib_func_lib ps1 func_name folder') = Inr lib
     \<and> dlopen_calls (snd (run_lib_func_lib ps1 func_name folder')) = dlopen_calls ps1
     \<and> dlopen_calls (snd (run_lib ps1 func_name folder')) = dlopen_calls ps1
     \<and> fst (run_lib ps1 func_name folder') = fst (run_lib ps func_name folder)"
proof -
  from run_lib_func_lib_cached [OF assms] obtain c where
    c: "libs ps1 = Some c" "map_of (items c) func_name = Some lib" by blast
  note hit = run_lib_func_lib_hit [OF c, of folder']
  have a: "fst (run_lib_func_lib ps1 func_name folder') = Inr lib" by (simp add: hit)
  have b: "dlopen_calls (snd (run_lib_func_lib ps1 func_name folder')) = dlopen_calls ps1"
    by (simp add: hit)
  have d: "dlopen_calls (snd (run_lib ps1 func_name folder')) = dlopen_calls ps1"
    by (simp add: run_lib_state b)
  have e: "fst (run_lib ps1 func_name folder') = fst (run_lib ps func_name folder)"
    by (simp add: run_lib_result [OF hit] run_lib_result [OF assms])
  from a b d e show ?thesis by (intro conjI)
qed

lemma example_first_load:
  "fst (run_lib_func_lib example_process ''k_abcd1234'' ''foo'')
      = Inr \<lparr>handle = 1, symbols = [''k_abcd1234'']\<rparr>"
  "dlopen_calls (snd (run_lib_func_lib example_process ''k_abcd1234'' ''foo''))
      = [''/home/u/.aiter/build/foo/lib.so'']"
  "fst (run_lib example_process ''k_abcd1234'' ''foo'') = Inr ()"
  by code_simp+

theorem run_lib_second_call_reuses_library_witness:
  "fst (run_lib_func_lib example_process ''k_abcd1234'' ''foo'')
      = Inr \<lparr>handle = 1, symbols = [''k_abcd1234'']\<rparr>
   \<and> fst (run_lib_func_lib (snd (run_lib_func_lib example_process ''k_abcd1234'' ''foo''))
            ''k_abcd1234'' ''foo'')
      = Inr \<lparr>handle = 1, symbols = [''k_abcd1234'']\<rparr>
   \<and> dlopen_calls (snd (run_lib (snd (run_lib_func_lib example_process ''k_abcd1234'' ''foo''))
            ''k_abcd1234'' ''foo''))
      = [''/home/u/.aiter/build/foo/lib.so'']
   \<and> fst (run_lib (snd (run_lib_func_lib example_process ''k_abcd1234'' ''foo''))
            ''k_abcd1234'' ''foo'') = Inr ()"
proof -
  let ?ps1 = "snd (run_lib_func_lib example_process ''k_abcd1234'' ''foo'')"
  have p: "run_lib_func_lib example_process ''k_abcd1234'' ''foo''
      = (Inr \<lparr>handle = 1, symbols = [''k_abcd1234'']\<rparr>, ?ps1)"
    by (rule prod_eqI) (simp_all add: example_first_load)
  note T = run_lib_second_call_reuses_library [OF p, of "''foo''"]
  from T example_first_load show ?thesis by simp
qed














section \<open>Properties of gemm\_a8w8\<close>

lemma KBatch_of_nonneg:
  assumes "0 \<le> splitK"
  shows "KBatch_of splitK = (if splitK \<le> 30 then Some (2 ^ nat splitK) else None)"
proof -
  define n where "n = nat splitK"
  have x: "(2 :: rat) powi splitK = of_int (2 ^ n)"
    using assms by (simp add: power_int_def n_def)
  have fl: "\<lfloor>(of_int (2 ^ n) :: rat)\<rfloor> = 2 ^ n" by (rule floor_of_int)
  have nn: "(0 :: rat) \<le> of_int (2 ^ n)" by simp
  have lt: "((2 :: int) ^ n < 2 ^ 31) = (n < 31)"
    by (rule power_strict_increasing_iff) simp
  have le: "- (2 ^ 31) \<le> (2 :: int) ^ n"
    by (rule order_trans [of _ 0]) simp_all
  have "splitK \<le> 30 \<longleftrightarrow> n < 31" using assms by (auto simp: n_def)
  then show ?thesis
    unfolding KBatch_of_def Let_def x fl using nn lt le
    by (simp add: n_def del: of_int_power)
qed

lemma KBatch_of_negative:
  assumes "splitK < 0"
  shows "KBatch_of splitK = Some 0"
proof -
  define n where "n = nat (- splitK)"
  have npos: "1 \<le> n" using assms by (simp add: n_def)
  have x: "(2 :: rat) powi splitK = (1 / 2) ^ n"
    using assms by (simp add: power_int_def n_def inverse_eq_divide)
  have pos: "(0 :: rat) < (1 / 2) ^ n" by simp
  have "((1 / 2) :: rat) ^ n \<le> (1 / 2) ^ 1"
    by (rule power_decreasing [OF npos]) simp_all
  then have lt1: "((1 / 2) :: rat) ^ n < 1" by simp
  have fl: "\<lfloor>((1 / 2) :: rat) ^ n\<rfloor> = 0"
    using pos lt1 by (simp add: floor_eq_iff)
  show ?thesis
    unfolding KBatch_of_def Let_def x fl using pos by simp
qed


lemma KBatch_of_eq:
  "KBatch_of splitK
     = (if splitK < 0 then Some 0 else if splitK \<le> 30 then Some (2 ^ nat splitK) else None)"
  using KBatch_of_nonneg [of splitK] KBatch_of_negative [of splitK] by simp

lemma padded_m_nonneg:
  assumes "0 \<le> M"
  shows "\<exists>p. padded_m M = Some p"
proof (cases "M = 0")
  case True
  then show ?thesis by (simp add: padded_m_def nextPow2_def)
next
  case False
  with assms have "0 < M" by simp
  from padded_m_positive [OF this] show ?thesis by blast
qed

lemma rowwise_dispatch_nonneg:
  assumes "0 \<le> M"
  shows "\<exists>it. rowwise_dispatch lookup M N K = Some it"
proof -
  from padded_m_nonneg [OF assms] obtain p where "padded_m M = Some p" by blast
  then show ?thesis by (simp add: rowwise_dispatch_def split: option.splits)
qed

lemma gemm_a8w8_types_supported:
  assumes "Y_dtype = Half \<or> Y_dtype = BFloat16"
  shows "\<exists>AB D E. gemm_a8w8_types XQ_dtype x_scale_dtype Y_dtype = Inr (AB, D, E)"
  using assms by (auto simp: gemm_a8w8_types_def)

lemma gemm_a8w8_call_args:
  assumes "gemm_a8w8_call lookup XQ WQ x_scale w_scale Y bias splitK = Inr c"
  shows "arg_Y c = Y" and "KBatch_of splitK = Some (arg_KBatch c)"
  using assms
  by (auto simp: gemm_a8w8_call_def split: if_splits sum.splits option.splits prod.splits)

lemma gemm_a8w8_call_checked:
  assumes "(dtype XQ = Char_dtype \<or> dtype XQ = torch_fp8) \<and> dtype XQ = dtype WQ"
    and "dtype x_scale = dtype w_scale"
    and "\<not> (case bias of None \<Rightarrow> False | Some b \<Rightarrow> \<not> dtype b = dtype Y)"
  shows "gemm_a8w8_call lookup XQ WQ x_scale w_scale Y bias splitK =
       (case Tensor_size XQ 0 of Inl f \<Rightarrow> Inl f | Inr M \<Rightarrow>
       (case Tensor_size WQ 0 of Inl f \<Rightarrow> Inl f | Inr N \<Rightarrow>
       (case Tensor_size XQ 1 of Inl f \<Rightarrow> Inl f | Inr K \<Rightarrow>
       (case KBatch_of splitK of None \<Rightarrow> Inl Undefined_behaviour | Some KBatch \<Rightarrow>
       (case gemm_a8w8_types (dtype XQ) (dtype x_scale) (dtype Y) of
          Inl f \<Rightarrow> Inl f
        | Inr (AB, D, E) \<Rightarrow>
           (case rowwise_dispatch (lookup (AB, D, E)) (to_int M) (to_int N) (to_int K) of
              None \<Rightarrow> Inl Undefined_behaviour
            | Some it \<Rightarrow>
                Inr \<lparr>entry_point = it, ABDataType = AB, DDataType = D, EDataType = E,
                     arg_XQ = XQ, arg_WQ = WQ, arg_x_scale = x_scale, arg_w_scale = w_scale,
                     arg_Y = Y, arg_bias = bias, arg_KBatch = KBatch\<rparr>))))))"
proof -
  have c1: "\<not> \<not> ((dtype XQ = Char_dtype \<or> dtype XQ = torch_fp8) \<and> dtype XQ = dtype WQ)"
    using assms(1) by blast
  have c2: "\<not> \<not> dtype x_scale = dtype w_scale" using assms(2) by blast
  show ?thesis
    unfolding gemm_a8w8_call_def
    by (subst if_not_P [OF c1], subst if_not_P [OF c2], subst if_not_P [OF assms(3)], rule refl)
qed

lemma gemm_a8w8_call_ok:
  assumes "dtype_checks XQ WQ x_scale w_scale Y bias"
    and "2 \<le> length (sizes XQ)" and "1 \<le> length (sizes WQ)"
    and "splitK \<le> 30" and "0 \<le> to_int (sizes XQ ! 0)"
  shows "\<exists>c. gemm_a8w8_call lookup XQ WQ x_scale w_scale Y bias splitK = Inr c"
proof -
  from assms(1) have chk:
    "(dtype XQ = Char_dtype \<or> dtype XQ = torch_fp8) \<and> dtype XQ = dtype WQ"
    "dtype x_scale = dtype w_scale"
    "\<not> (case bias of None \<Rightarrow> False | Some b \<Rightarrow> \<not> dtype b = dtype Y)"
    "dtype Y = Half \<or> dtype Y = BFloat16"
    by (auto simp: dtype_checks_def split: option.splits)
  have s0: "Tensor_size XQ 0 = Inr (sizes XQ ! 0)" using assms(2) by (auto simp: Tensor_size_def)
  have s1: "Tensor_size WQ 0 = Inr (sizes WQ ! 0)" using assms(3) by (auto simp: Tensor_size_def)
  have s2: "Tensor_size XQ 1 = Inr (sizes XQ ! 1)"
    using assms(2) by (simp add: Tensor_size_def)
  have "\<exists>kb. KBatch_of splitK = Some kb"
    using assms(4) by (simp add: KBatch_of_eq)
  then obtain kb where kb: "KBatch_of splitK = Some kb" by blast
  from gemm_a8w8_types_supported [OF chk(4)] obtain AB D E where
    ty: "gemm_a8w8_types (dtype XQ) (dtype x_scale) (dtype Y) = Inr (AB, D, E)" by blast
  from rowwise_dispatch_nonneg [OF assms(5)] obtain it where
    it: "rowwise_dispatch (lookup (AB, D, E)) (to_int (sizes XQ ! 0)) (to_int (sizes WQ ! 0))
           (to_int (sizes XQ ! 1)) = Some it" by blast
  have "gemm_a8w8_call lookup XQ WQ x_scale w_scale Y bias splitK
      = Inr \<lparr>entry_point = it, ABDataType = AB, DDataType = D, EDataType = E,
             arg_XQ = XQ, arg_WQ = WQ, arg_x_scale = x_scale, arg_w_scale = w_scale,
             arg_Y = Y, arg_bias = bias, arg_KBatch = kb\<rparr>"
    by (simp only: gemm_a8w8_call_checked [OF chk(1,2,3)] s0 s1 s2 kb ty it
          sum.case option.case prod.case)
  then show ?thesis by blast
qed

text \<open>
  C9 (amended). Whenever \<open>gemm_a8w8\<close> returns, the tensor it returns is the handle
  \<open>Y\<close> that the caller passed. It does return, with \<open>Y\<close> also being the output
  argument of the kernel call, for every call that passes the data type checks, has an
  \<open>XQ\<close> of at least two dimensions and a \<open>WQ\<close> of at least one,
  \<open>splitK \<le> 30\<close> and a non-negative \<open>M\<close>, and whose kernel returns normally.
\<close>

theorem gemm_a8w8_returns_Y:
  "(gemm_a8w8 lookup launch XQ WQ x_scale w_scale Y bias splitK st = Inr (r, st') \<longrightarrow> r = Y)
   \<and> (dtype_checks XQ WQ x_scale w_scale Y bias
        \<and> 2 \<le> length (sizes XQ) \<and> 1 \<le> length (sizes WQ)
        \<and> splitK \<le> 30 \<and> 0 \<le> to_int (sizes XQ ! 0)
      \<longrightarrow> (\<exists>c. gemm_a8w8_call lookup XQ WQ x_scale w_scale Y bias splitK = Inr c
               \<and> arg_Y c = Y
               \<and> (\<forall>s s'. launch c s = Inr s'
                     \<longrightarrow> gemm_a8w8 lookup launch XQ WQ x_scale w_scale Y bias splitK s
                           = Inr (Y, s'))))"
proof (intro conjI impI)
  assume "gemm_a8w8 lookup launch XQ WQ x_scale w_scale Y bias splitK st = Inr (r, st')"
  then show "r = Y" by (auto simp: gemm_a8w8_def split: sum.splits)
next
  assume a: "dtype_checks XQ WQ x_scale w_scale Y bias
        \<and> 2 \<le> length (sizes XQ) \<and> 1 \<le> length (sizes WQ)
        \<and> splitK \<le> 30 \<and> 0 \<le> to_int (sizes XQ ! 0)"
  then have "\<exists>c. gemm_a8w8_call lookup XQ WQ x_scale w_scale Y bias splitK = Inr c"
    by (intro gemm_a8w8_call_ok) simp_all
  then obtain c where c: "gemm_a8w8_call lookup XQ WQ x_scale w_scale Y bias splitK = Inr c"
    by blast
  have y: "arg_Y c = Y" using c by (rule gemm_a8w8_call_args)
  have "\<forall>s s'. launch c s = Inr s'
          \<longrightarrow> gemm_a8w8 lookup launch XQ WQ x_scale w_scale Y bias splitK s = Inr (Y, s')"
    by (simp add: gemm_a8w8_def c)
  with c y show "\<exists>c. gemm_a8w8_call lookup XQ WQ x_scale w_scale Y bias splitK = Inr c
               \<and> arg_Y c = Y
               \<and> (\<forall>s s'. launch c s = Inr s'
                     \<longrightarrow> gemm_a8w8 lookup launch XQ WQ x_scale w_scale Y bias splitK s
                           = Inr (Y, s'))"
    by blast
qed

lemma example_dtype_checks:
  "dtype_checks example_XQ example_WQ example_x_scale example_w_scale example_Y None"
  "dtype_checks example_XQ_1d example_WQ example_x_scale example_w_scale example_Y None"
  by (simp_all add: dtype_checks_def example_XQ_def example_XQ_1d_def example_WQ_def
        example_x_scale_def example_w_scale_def example_Y_def)

theorem gemm_a8w8_returns_Y_witness:
  "dtype_checks example_XQ example_WQ example_x_scale example_w_scale example_Y None
   \<and> 2 \<le> length (sizes example_XQ) \<and> 1 \<le> length (sizes example_WQ)
   \<and> (3 :: int) \<le> 30 \<and> 0 \<le> to_int (sizes example_XQ ! 0)
   \<and> map_sum id fst
        (gemm_a8w8 example_tables recording_launch example_XQ example_WQ
           example_x_scale example_w_scale example_Y None 3 [])
       = Inr example_Y"
proof -
  have h: "2 \<le> length (sizes example_XQ)" "1 \<le> length (sizes example_WQ)"
    by (simp_all add: example_XQ_def example_WQ_def)
  have m: "to_int (sizes example_XQ ! 0) = 300" by (simp add: example_XQ_def to_int_def)
  note T = gemm_a8w8_returns_Y [of example_tables recording_launch example_XQ
      example_WQ example_x_scale example_w_scale example_Y None 3 "[]" example_Y "[]"]
  from T [THEN conjunct2] example_dtype_checks(1) h m
  obtain c where
    "\<forall>s s'. recording_launch c s = Inr s'
        \<longrightarrow> gemm_a8w8 example_tables recording_launch example_XQ example_WQ
              example_x_scale example_w_scale example_Y None 3 s = Inr (example_Y, s')"
    by auto
  then have "gemm_a8w8 example_tables recording_launch example_XQ example_WQ
              example_x_scale example_w_scale example_Y None 3 [] = Inr (example_Y, [c])"
    by (simp add: recording_launch_def)
  with example_dtype_checks(1) h m show ?thesis by simp
qed

text \<open>
  C9 as stated fails for a call that passes every data type check with a
  one-dimensional \<open>XQ\<close>: \<open>XQ.size(1)\<close> throws and nothing is returned.
\<close>

theorem gemm_a8w8_rank_counterexample:
  "dtype_checks example_XQ_1d example_WQ example_x_scale example_w_scale example_Y None
   \<and> gemm_a8w8 example_tables recording_launch example_XQ_1d example_WQ
        example_x_scale example_w_scale example_Y None 0 []
      = Inl (Throws C10_index_error)"
proof -
  have "gemm_a8w8_call example_tables example_XQ_1d example_WQ
        example_x_scale example_w_scale example_Y None 0 = Inl (Throws C10_index_error)"
    by (simp add: gemm_a8w8_call_def Tensor_size_def example_XQ_1d_def example_WQ_def
          example_x_scale_def example_w_scale_def example_Y_def)
  then have "gemm_a8w8 example_tables recording_launch example_XQ_1d example_WQ
        example_x_scale example_w_scale example_Y None 0 []
      = Inl (Throws C10_index_error)"
    by (simp add: gemm_a8w8_def)
  with example_dtype_checks(2) show ?thesis by simp
qed

text \<open>
  C10 (amended). In every kernel call that \<open>gemm_a8w8\<close> makes with
  \<open>0 \<le> splitK \<le> 30\<close>, the split-K argument of the kernel is \<open>2 ^ splitK\<close>, so
  \<open>splitK = 0\<close> passes 1 and \<open>splitK = 3\<close> passes 8; with a negative \<open>splitK\<close>
  it is 0. Whenever \<open>gemm_a8w8\<close> returns, it has made such a call.
\<close>

theorem gemm_a8w8_KBatch:
  "(gemm_a8w8_call lookup XQ WQ x_scale w_scale Y bias splitK = Inr c
       \<and> 0 \<le> splitK \<and> splitK \<le> 30
      \<longrightarrow> arg_KBatch c = 2 ^ nat splitK)
   \<and> (gemm_a8w8_call lookup XQ WQ x_scale w_scale Y bias splitK = Inr c \<and> splitK < 0
      \<longrightarrow> arg_KBatch c = 0)
   \<and> (gemm_a8w8 lookup launch XQ WQ x_scale w_scale Y bias splitK st = Inr (r, st')
      \<longrightarrow> (\<exists>c. gemm_a8w8_call lookup XQ WQ x_scale w_scale Y bias splitK = Inr c
               \<and> launch c st = Inr st'
               \<and> (0 \<le> splitK \<and> splitK \<le> 30 \<longrightarrow> arg_KBatch c = 2 ^ nat splitK)
               \<and> (splitK < 0 \<longrightarrow> arg_KBatch c = 0)))"
proof -
  have k: "(0 \<le> splitK \<and> splitK \<le> 30 \<longrightarrow> arg_KBatch c = 2 ^ nat splitK)
      \<and> (splitK < 0 \<longrightarrow> arg_KBatch c = 0)"
    if "gemm_a8w8_call lookup XQ WQ x_scale w_scale Y bias splitK = Inr c" for c
  proof -
    from that have "KBatch_of splitK = Some (arg_KBatch c)" by (rule gemm_a8w8_call_args)
    then show ?thesis by (auto simp: KBatch_of_eq split: if_splits)
  qed
  have g: "\<exists>c. gemm_a8w8_call lookup XQ WQ x_scale w_scale Y bias splitK = Inr c
               \<and> launch c st = Inr st'
               \<and> (0 \<le> splitK \<and> splitK \<le> 30 \<longrightarrow> arg_KBatch c = 2 ^ nat splitK)
               \<and> (splitK < 0 \<longrightarrow> arg_KBatch c = 0)"
    if "gemm_a8w8 lookup launch XQ WQ x_scale w_scale Y bias splitK st = Inr (r, st')"
  proof -
    from that obtain c where
      c: "gemm_a8w8_call lookup XQ WQ x_scale w_scale Y bias splitK = Inr c"
        "launch c st = Inr st'"
      by (auto simp: gemm_a8w8_def split: sum.splits)
    with k [OF c(1)] show ?thesis by blast
  qed
  from k g show ?thesis by blast
qed

lemma example_call:
  "gemm_a8w8_call example_tables example_XQ example_WQ example_x_scale example_w_scale
      example_Y None splitK
    = (case KBatch_of splitK of
         None \<Rightarrow> Inl Undefined_behaviour
       | Some KBatch \<Rightarrow>
           Inr \<lparr>entry_point = Manifest_kernel ''tuned_512'', ABDataType = I8, DDataType = F32,
                EDataType = F16, arg_XQ = example_XQ, arg_WQ = example_WQ,
                arg_x_scale = example_x_scale, arg_w_scale = example_w_scale,
                arg_Y = example_Y, arg_bias = None, arg_KBatch = KBatch\<rparr>)"
proof -
  have d: "rowwise_dispatch example_lookup 300 1280 8192 = Some (Manifest_kernel ''tuned_512'')"
    by code_simp
  have t: "to_int 300 = 300" "to_int 1280 = 1280" "to_int 8192 = 8192"
    by (simp_all add: to_int_def)
  show ?thesis
    by (simp add: gemm_a8w8_call_def Tensor_size_def gemm_a8w8_types_def d t example_tables_def
          example_XQ_def example_WQ_def example_x_scale_def example_w_scale_def example_Y_def
          split: option.splits)
qed

theorem gemm_a8w8_KBatch_witness:
  "map_sum id arg_KBatch
      (gemm_a8w8_call example_tables example_XQ example_WQ example_x_scale
         example_w_scale example_Y None 3) = Inr 8
   \<and> map_sum id arg_KBatch
      (gemm_a8w8_call example_tables example_XQ example_WQ example_x_scale
         example_w_scale example_Y None 0) = Inr 1
   \<and> map_sum id arg_KBatch
      (gemm_a8w8_call example_tables example_XQ example_WQ example_x_scale
         example_w_scale example_Y None (- 2)) = Inr 0
   \<and> map_sum id (map arg_KBatch \<circ> snd)
      (gemm_a8w8 example_tables recording_launch example_XQ example_WQ example_x_scale
         example_w_scale example_Y None 3 []) = Inr [8]"
proof -
  let ?call = "\<lambda>k. \<lparr>entry_point = Manifest_kernel ''tuned_512'', ABDataType = I8,
      DDataType = F32, EDataType = F16, arg_XQ = example_XQ, arg_WQ = example_WQ,
      arg_x_scale = example_x_scale, arg_w_scale = example_w_scale,
      arg_Y = example_Y, arg_bias = None, arg_KBatch = k\<rparr>"
  have c3: "gemm_a8w8_call example_tables example_XQ example_WQ example_x_scale
         example_w_scale example_Y None 3 = Inr (?call 8)"
    by (simp add: example_call KBatch_of_eq)
  have c0: "gemm_a8w8_call example_tables example_XQ example_WQ example_x_scale
         example_w_scale example_Y None 0 = Inr (?call 1)"
    by (simp add: example_call KBatch_of_eq)
  have g3: "gemm_a8w8 example_tables recording_launch example_XQ example_WQ
         example_x_scale example_w_scale example_Y None 3 [] = Inr (example_Y, [?call 8])"
    by (simp add: gemm_a8w8_def c3 recording_launch_def)
  note T3 = gemm_a8w8_KBatch [of example_tables example_XQ example_WQ example_x_scale
      example_w_scale example_Y None 3 "?call 8" recording_launch "[]" example_Y "[?call 8]"]
  note T0 = gemm_a8w8_KBatch [of example_tables example_XQ example_WQ example_x_scale
      example_w_scale example_Y None 0 "?call 1" recording_launch "[]" example_Y "[?call 1]"]
  have cn: "gemm_a8w8_call example_tables example_XQ example_WQ example_x_scale
         example_w_scale example_Y None (- 2) = Inr (?call 0)"
    by (simp add: example_call KBatch_of_eq)
  note Tn = gemm_a8w8_KBatch [of example_tables example_XQ example_WQ example_x_scale
      example_w_scale example_Y None "- 2" "?call 0" recording_launch "[]" example_Y "[?call 0]"]
  from Tn [THEN conjunct2, THEN conjunct1] cn have kn: "arg_KBatch (?call 0) = 0" by simp
  from T3 [THEN conjunct1] c3 have k3: "arg_KBatch (?call 8) = 2 ^ nat 3" by simp
  from T0 [THEN conjunct1] c0 have k0: "arg_KBatch (?call 1) = 2 ^ nat 0" by simp
  from T3 [THEN conjunct2, THEN conjunct2] g3 have "\<exists>c. recording_launch c [] = Inr [?call 8]
      \<and> arg_KBatch c = 2 ^ nat 3"
    by auto
  then have k3': "map arg_KBatch [?call 8] = [8]" by (auto simp: recording_launch_def)
  from c3 c0 cn g3 k3 k0 kn k3' show ?thesis by simp
qed

text \<open>
  C10 as stated fails for a negative \<open>splitK\<close>: with \<open>splitK = -1\<close> the kernel
  receives 0, the truncation of one half, which is not \<open>2\<close> to the power \<open>-1\<close>.
\<close>

theorem gemm_a8w8_KBatch_negative_counterexample:
  "map_sum id arg_KBatch
      (gemm_a8w8_call example_tables example_XQ example_WQ example_x_scale
         example_w_scale example_Y None (- 1)) = Inr 0
   \<and> rat_of_int 0 \<noteq> 2 powi (- 1)"
proof -
  have "map_sum id arg_KBatch
      (gemm_a8w8_call example_tables example_XQ example_WQ example_x_scale
         example_w_scale example_Y None (- 1)) = Inr 0"
    by (simp add: example_call KBatch_of_eq)
  moreover have "rat_of_int 0 \<noteq> 2 powi (- 1)" by (simp add: power_int_def)
  ultimately show ?thesis by (intro conjI)
qed

end
